theory Spec2Isabelle
  imports Main
begin

section \<open>JavaScript values\<close>

text \<open>
  The backend \<^verbatim>\<open>githubstore/backend/server.js\<close> keeps two pieces of state in memory:
  the set \<^verbatim>\<open>usedTransactionIds\<close> and the object \<^verbatim>\<open>ipManager\<close>. This theory embeds
  the functions that read and write them, and the request handlers that call those functions.

  A JavaScript string is a sequence of UTF-16 code units; \<^verbatim>\<open>length\<close> counts code units.
  A code unit is modelled by its number.
\<close>

type_synonym jsstring = "nat list"

definition js :: "string \<Rightarrow> jsstring" where
  "js s = map of_char s"

text \<open>
  The values a parsed JSON body, a header or an environment variable can hold. A number is
  an integer here, since the code only tests numbers for being zero and for being equal. An
  array has its elements and an object its keys and values, the keys distinct; each also has
  its reference, by which \<^verbatim>\<open>===\<close> and \<^verbatim>\<open>Set\<close> know it.
\<close>

datatype jsval =
    JUndefined
  | JNull
  | JBool bool
  | JNum int
  | JStr jsstring
  | JArr nat "jsval list"
  | JObj nat "(jsstring \<times> jsval) list"

fun truthy :: "jsval \<Rightarrow> bool" where
  "truthy JUndefined = False"
| "truthy JNull = False"
| "truthy (JBool b) = b"
| "truthy (JNum n) = (n \<noteq> 0)"
| "truthy (JStr s) = (s \<noteq> [])"
| "truthy (JArr r vs) = True"
| "truthy (JObj r ps) = True"

fun typeof :: "jsval \<Rightarrow> string" where
  "typeof JUndefined = ''undefined''"
| "typeof JNull = ''object''"
| "typeof (JBool b) = ''boolean''"
| "typeof (JNum n) = ''number''"
| "typeof (JStr s) = ''string''"
| "typeof (JArr r vs) = ''object''"
| "typeof (JObj r ps) = ''object''"

text \<open>\<^verbatim>\<open>a || b\<close>: the left operand when it is truthy, the right one otherwise.\<close>

definition js_or :: "jsval \<Rightarrow> jsval \<Rightarrow> jsval" where
  "js_or a b = (if truthy a then a else b)"

text \<open>The code units of a value that \<^verbatim>\<open>typeof\<close> has shown to be a string.\<close>

fun chars :: "jsval \<Rightarrow> jsstring" where
  "chars (JStr s) = s"
| "chars v = []"

text \<open>
  A template literal converts the value it substitutes to a string, and for some values the
  conversion throws a \<^verbatim>\<open>TypeError\<close>. A parsed object is converted by its \<^verbatim>\<open>toString\<close>
  method, then by \<^verbatim>\<open>valueOf\<close>: an object with a key \<^verbatim>\<open>toString\<close> of its own has a value
  there that cannot be called, and the inherited \<^verbatim>\<open>valueOf\<close> returns the object, so the
  conversion throws; any other parsed object becomes \<^verbatim>\<open>[object Object]\<close>. An array is
  joined from the conversions of its elements. Every other value converts.
\<close>

fun to_string_throws :: "jsval \<Rightarrow> bool" where
  "to_string_throws (JObj r ps) = (js ''toString'' \<in> set (map fst ps))"
| "to_string_throws (JArr r vs) = list_ex to_string_throws vs"
| "to_string_throws v = False"

subsection \<open>Strings\<close>

text \<open>
  \<^verbatim>\<open>String.prototype.trim\<close> removes the WhiteSpace and LineTerminator code points of
  ECMAScript from both ends: TAB, LF, VT, FF, CR, SPACE, NBSP, U+1680, U+2000 to U+200A,
  U+2028, U+2029, U+202F, U+205F, U+3000 and U+FEFF.
\<close>

definition is_whitespace :: "nat \<Rightarrow> bool" where
  "is_whitespace c \<longleftrightarrow>
     c = 0x09 \<or> c = 0x0A \<or> c = 0x0B \<or> c = 0x0C \<or> c = 0x0D \<or> c = 0x20 \<or> c = 0xA0 \<or>
     c = 0x1680 \<or> (0x2000 \<le> c \<and> c \<le> 0x200A) \<or> c = 0x2028 \<or> c = 0x2029 \<or>
     c = 0x202F \<or> c = 0x205F \<or> c = 0x3000 \<or> c = 0xFEFF"

definition trim :: "jsstring \<Rightarrow> jsstring" where
  "trim s = rev (dropWhile is_whitespace (rev (dropWhile is_whitespace s)))"

text \<open>\<^verbatim>\<open>s.includes(' ')\<close>.\<close>

definition includes_space :: "jsstring \<Rightarrow> bool" where
  "includes_space s \<longleftrightarrow> 0x20 \<in> set s"

text \<open>
  The character class \<^verbatim>\<open>[a-zA-Z0-9_-]\<close> and the test of \<^verbatim>\<open>/^[a-zA-Z0-9_-]+$/\<close>, which has
  no flags: the whole string, one character or more, all of the class.
\<close>

definition in_class :: "nat \<Rightarrow> bool" where
  "in_class c \<longleftrightarrow>
     (0x61 \<le> c \<and> c \<le> 0x7A) \<or> (0x41 \<le> c \<and> c \<le> 0x5A) \<or> (0x30 \<le> c \<and> c \<le> 0x39) \<or>
     c = 0x5F \<or> c = 0x2D"

definition regex_test :: "jsstring \<Rightarrow> bool" where
  "regex_test s \<longleftrightarrow> s \<noteq> [] \<and> list_all in_class s"

subsection \<open>Sets\<close>

text \<open>
  A JavaScript \<^verbatim>\<open>Set\<close> holds each value once and iterates in insertion order, which
  \<^verbatim>\<open>Array.from\<close> shows: it is a list, \<^verbatim>\<open>add\<close> appends a value that is not there yet,
  \<^verbatim>\<open>delete\<close> takes the value out, \<^verbatim>\<open>size\<close> is the length.
\<close>

definition set_has :: "'a list \<Rightarrow> 'a \<Rightarrow> bool" where
  "set_has xs x \<longleftrightarrow> x \<in> set xs"

definition set_add :: "'a list \<Rightarrow> 'a \<Rightarrow> 'a list" where
  "set_add xs x = (if x \<in> set xs then xs else xs @ [x])"

definition set_delete :: "'a list \<Rightarrow> 'a \<Rightarrow> 'a list" where
  "set_delete xs x = removeAll x xs"

section \<open>Transaction identifiers\<close>

text \<open>
  \<^verbatim>\<open>validateTransactionId\<close> reads the set \<^verbatim>\<open>usedTransactionIds\<close> (here \<open>used\<close>) and
  its argument \<^verbatim>\<open>transactionId\<close> (here \<open>tid\<close>), and returns either
  \<^verbatim>\<open>{ valid: false, error }\<close> (\<open>Inl\<close> of the message) or \<^verbatim>\<open>{ valid: true, cleanId }\<close>
  (\<open>Inr\<close> of the trimmed identifier).
\<close>

definition validateTransactionId :: "jsstring list \<Rightarrow> jsval \<Rightarrow> string + jsstring" where
  "validateTransactionId used tid =
     (if \<not> truthy tid \<or> typeof tid \<noteq> ''string'' then
        Inl ''Transaction ID must be a non-empty string''
      else
        let cleanId = trim (chars tid) in
        if length cleanId < 8 then
          Inl ''Transaction ID must be at least 8 characters long''
        else if length cleanId > 100 then
          Inl ''Transaction ID must be less than 100 characters''
        else if includes_space cleanId then
          Inl ''Transaction ID cannot contain spaces''
        else if \<not> regex_test cleanId then
          Inl ''Transaction ID can only contain letters, numbers, hyphens, and underscores''
        else if set_has used cleanId then
          Inl ''Transaction ID has already been used''
        else
          Inr cleanId)"

text \<open>
  The checkout and the payment handler call \<^verbatim>\<open>validateTransactionId\<close> and, when it
  returned a \<^verbatim>\<open>cleanId\<close>, run \<^verbatim>\<open>usedTransactionIds.add(validation.cleanId)\<close> with no
  \<^verbatim>\<open>await\<close> in between. \<open>admit\<close> is that fragment of both handlers: the validation
  result and the set afterwards.
\<close>

definition admit :: "jsstring list \<Rightarrow> jsval \<Rightarrow> (string + jsstring) \<times> jsstring list" where
  "admit used tid =
     (case validateTransactionId used tid of
        Inl e \<Rightarrow> (Inl e, used)
      | Inr cleanId \<Rightarrow> (Inr cleanId, set_add used cleanId))"


text \<open>The same run, keeping the result of each admission in order.\<close>

fun admit_each :: "jsstring list \<Rightarrow> jsval list \<Rightarrow> (string + jsstring) list" where
  "admit_each used [] = []"
| "admit_each used (raw # raws) = fst (admit used raw) # admit_each (snd (admit used raw)) raws"

subsection \<open>The admission rule as the specification words it\<close>

text \<open>
  The specification names the six rejections; the code tells them apart by their message.
\<close>

datatype ValidationError =
  Empty | TooShort | TooLong | ContainsWhitespace | InvalidCharset | AlreadyUsed

fun error_text :: "ValidationError \<Rightarrow> string" where
  "error_text Empty = ''Transaction ID must be a non-empty string''"
| "error_text TooShort = ''Transaction ID must be at least 8 characters long''"
| "error_text TooLong = ''Transaction ID must be less than 100 characters''"
| "error_text ContainsWhitespace = ''Transaction ID cannot contain spaces''"
| "error_text InvalidCharset =
     ''Transaction ID can only contain letters, numbers, hyphens, and underscores''"
| "error_text AlreadyUsed = ''Transaction ID has already been used''"

text \<open>
  \<open>spec_validate_and_admit\<close> follows section 4.1 of the specification, not the code: the
  ledger is a set, the checks are the six numbered ones in their order, each on the trimmed
  value, and success inserts the trimmed value.
\<close>

definition spec_validate_and_admit ::
  "jsstring set \<Rightarrow> jsval \<Rightarrow> (ValidationError + jsstring) \<times> jsstring set" where
  "spec_validate_and_admit ledger raw =
     (let trimmed = trim (chars raw) in
      if typeof raw \<noteq> ''string'' \<or> chars raw = [] then (Inl Empty, ledger)
      else if length trimmed < 8 then (Inl TooShort, ledger)
      else if length trimmed > 100 then (Inl TooLong, ledger)
      else if list_ex (\<lambda>c. c = 0x20) trimmed then (Inl ContainsWhitespace, ledger)
      else if list_ex (\<lambda>c. \<not> in_class c) trimmed then (Inl InvalidCharset, ledger)
      else if trimmed \<in> ledger then (Inl AlreadyUsed, ledger)
      else (Inr trimmed, insert trimmed ledger))"

section \<open>The address lists\<close>

text \<open>
  \<^verbatim>\<open>ipManager\<close> is one object with two sets and a flag; \<^verbatim>\<open>whitelistMode\<close> is false for
  blocklist mode and true for whitelist mode. Its methods take the object as \<open>this\<close> and
  return it updated. The sets hold whatever value is handed in, so the type of an address is
  left open.
\<close>

record 'a ip_manager =
  blockedIPs :: "'a list"
  allowedIPs :: "'a list"
  whitelistMode :: bool

definition initial_ipManager :: "'a ip_manager" where
  "initial_ipManager = \<lparr>blockedIPs = [], allowedIPs = [], whitelistMode = False\<rparr>"

definition blockIP :: "'a \<Rightarrow> 'a ip_manager \<Rightarrow> 'a ip_manager" where
  "blockIP ip this =
     this\<lparr>blockedIPs := set_add (blockedIPs this) ip,
          allowedIPs := set_delete (allowedIPs this) ip\<rparr>"

definition allowIP :: "'a \<Rightarrow> 'a ip_manager \<Rightarrow> 'a ip_manager" where
  "allowIP ip this =
     this\<lparr>allowedIPs := set_add (allowedIPs this) ip,
          blockedIPs := set_delete (blockedIPs this) ip\<rparr>"

definition removeIP :: "'a \<Rightarrow> 'a ip_manager \<Rightarrow> 'a ip_manager" where
  "removeIP ip this =
     this\<lparr>blockedIPs := set_delete (blockedIPs this) ip,
          allowedIPs := set_delete (allowedIPs this) ip\<rparr>"

definition isIPAllowed :: "'a ip_manager \<Rightarrow> 'a \<Rightarrow> bool" where
  "isIPAllowed this clientIP =
     (if whitelistMode this then
        set_has (allowedIPs this) clientIP \<or> length (allowedIPs this) = 0
      else
        \<not> set_has (blockedIPs this) clientIP)"

text \<open>\<^verbatim>\<open>getStatus\<close> returns the mode as a word, the two sizes and the two sets as arrays.\<close>

record 'a ip_status =
  mode :: string
  blockedCount :: nat
  allowedCount :: nat
  blockedIPs_arr :: "'a list"
  allowedIPs_arr :: "'a list"

definition getStatus :: "'a ip_manager \<Rightarrow> 'a ip_status" where
  "getStatus this =
     \<lparr>mode = (if whitelistMode this then ''whitelist'' else ''blacklist''),
      blockedCount = length (blockedIPs this),
      allowedCount = length (allowedIPs this),
      blockedIPs_arr = blockedIPs this,
      allowedIPs_arr = allowedIPs this\<rparr>"

text \<open>\<^verbatim>\<open>setMode\<close> stores whether its argument is the string \<^verbatim>\<open>'whitelist'\<close>.\<close>

definition setMode :: "jsval \<Rightarrow> 'a ip_manager \<Rightarrow> 'a ip_manager" where
  "setMode m this = this\<lparr>whitelistMode := (m = JStr (js ''whitelist''))\<rparr>"

text \<open>The four operations that change the object, and a run of them from some object.\<close>

datatype 'a gate_op = Block 'a | Allow 'a | Remove 'a | SetMode jsval

fun apply_gate_op :: "'a ip_manager \<Rightarrow> 'a gate_op \<Rightarrow> 'a ip_manager" where
  "apply_gate_op this (Block ip) = blockIP ip this"
| "apply_gate_op this (Allow ip) = allowIP ip this"
| "apply_gate_op this (Remove ip) = removeIP ip this"
| "apply_gate_op this (SetMode m) = setMode m this"

definition run_gate_ops :: "'a ip_manager \<Rightarrow> 'a gate_op list \<Rightarrow> 'a ip_manager" where
  "run_gate_ops this ops = foldl apply_gate_op this ops"

section \<open>Requests and responses\<close>

text \<open>
  What the handlers read of a request: four headers, the three places the peer address is
  read from (\<^verbatim>\<open>req.connection?.remoteAddress\<close>, \<^verbatim>\<open>req.socket?.remoteAddress\<close>, \<^verbatim>\<open>req.ip\<close>)
  and the parsed JSON body, an object given by its keys and values. A header and a peer
  address are each a string or undefined, so a log line that substitutes one cannot throw.
  A key the body does not have reads as undefined.
\<close>

type_synonym jsobject = "(jsstring \<times> jsval) list"

definition property :: "jsobject \<Rightarrow> string \<Rightarrow> jsval" where
  "property obj k = (case map_of obj (js k) of None \<Rightarrow> JUndefined | Some v \<Rightarrow> v)"

text \<open>
  \<^verbatim>\<open>v.name\<close> and \<^verbatim>\<open>v.email\<close> of a truthy value \<open>v\<close> of the body: the value under that
  key when \<open>v\<close> is an object, and undefined for a string, number, boolean or array, which
  have no property of these names.
\<close>

fun property_of :: "jsval \<Rightarrow> string \<Rightarrow> jsval" where
  "property_of (JObj r ps) k = property ps k"
| "property_of v k = JUndefined"

record request =
  x_forwarded_for :: jsval
  x_real_ip :: jsval
  x_admin_key :: jsval
  x_api_key :: jsval
  connection_remoteAddress :: jsval
  socket_remoteAddress :: jsval
  req_ip :: jsval
  body :: jsobject

text \<open>The two environment variables that hold the shared secrets; each a string or undefined.\<close>

record env =
  ADMIN_KEY :: jsval
  API_KEY :: jsval

definition default_key :: string where
  "default_key = ''splintax_admin_9e3cf7ba59a4b9901492acbf23d1350f60c2624c089b5fd7c2c40fbc9d0ba336''"

text \<open>
  A response is the status code and the fields of the JSON object that is sent; a field that
  a response does not set is \<open>None\<close>. A message built by a template literal is kept as its
  parts, the text and the substituted values.
\<close>

datatype part = Lit string | Sub jsval

record response =
  code :: nat
  success :: bool
  error :: "string option"
  message :: "part list option"
  ip :: "jsval option"
  status :: "jsval ip_status option"
  transactionId :: "jsstring option"
  validated :: "bool option"

definition reply :: "nat \<Rightarrow> bool \<Rightarrow> response" where
  "reply c ok =
     \<lparr>code = c, success = ok, error = None, message = None, ip = None, status = None,
      transactionId = None, validated = None\<rparr>"

text \<open>
  The state of the process, and what a handler leaves behind: the response, the state and
  the requests it has sent to the chat webhook. Of such a request only the identifier and the
  address that go into it are kept, or the forwarded body. Whether the chat webhook answers
  with success, answers with an error status or the call throws is not decided by this
  program, so it is a parameter of the handlers.
\<close>

record server =
  ipManager :: "jsval ip_manager"
  usedTransactionIds :: "jsstring list"

datatype notification =
    Forwarded jsobject
  | CheckoutStarted jsstring jsval
  | PaymentDetected jsstring jsval

datatype fetched = Accepted | Refused | Threw

type_synonym outcome = "response \<times> server \<times> notification list"

definition initial_server :: server where
  "initial_server = \<lparr>ipManager = initial_ipManager, usedTransactionIds = []\<rparr>"

subsection \<open>The address of the client and the middleware\<close>

definition clientIP :: "request \<Rightarrow> jsval" where
  "clientIP req =
     js_or (x_forwarded_for req)
       (js_or (x_real_ip req)
          (js_or (connection_remoteAddress req)
             (js_or (socket_remoteAddress req)
                (js_or (req_ip req) (JStr (js ''Unknown''))))))"

text \<open>\<^verbatim>\<open>checkIPAccess(req, res, next)\<close>: \<open>next\<close> is the handler the route names after it.\<close>

definition checkIPAccess :: "request \<Rightarrow> server \<Rightarrow> (server \<Rightarrow> outcome) \<Rightarrow> outcome" where
  "checkIPAccess req srv next =
     (if \<not> isIPAllowed (ipManager srv) (clientIP req) then
        ((reply 403 False)
           \<lparr>error := Some ''Access denied from this IP address'', ip := Some (clientIP req)\<rparr>,
         srv, [])
      else next srv)"

subsection \<open>The admin routes\<close>

text \<open>
  Each admin handler compares the \<^verbatim>\<open>x-admin-key\<close> header with
  \<^verbatim>\<open>process.env.ADMIN_KEY || '<the built-in key>'\<close> by \<^verbatim>\<open>!==\<close>, then reads its argument
  from the body, then calls the method of \<^verbatim>\<open>ipManager\<close>.

  \<^verbatim>\<open>blockIP\<close>, \<^verbatim>\<open>allowIP\<close> and \<^verbatim>\<open>removeIP\<close> end with a \<^verbatim>\<open>console.log\<close> whose template
  literal substitutes \<^verbatim>\<open>ip\<close>. When that conversion throws, both sets have been updated
  already; the exception leaves the handler, and the error handler registered last answers
  500 with \<^verbatim>\<open>Internal server error\<close>. In \<^verbatim>\<open>setMode\<close> the value logged is one of the two
  strings the route lets through.
\<close>

definition expectedAdminKey :: "env \<Rightarrow> jsval" where
  "expectedAdminKey e = js_or (ADMIN_KEY e) (JStr (js default_key))"

definition admin_ip_status :: "env \<Rightarrow> request \<Rightarrow> server \<Rightarrow> outcome" where
  "admin_ip_status e req srv =
     (let adminKey = x_admin_key req in
      if adminKey \<noteq> expectedAdminKey e then
        ((reply 401 False)\<lparr>error := Some ''Invalid admin key''\<rparr>, srv, [])
      else
        ((reply 200 True)\<lparr>status := Some (getStatus (ipManager srv))\<rparr>, srv, []))"

definition admin_block_ip :: "env \<Rightarrow> request \<Rightarrow> server \<Rightarrow> outcome" where
  "admin_block_ip e req srv =
     (let adminKey = x_admin_key req in
      if adminKey \<noteq> expectedAdminKey e then
        ((reply 401 False)\<lparr>error := Some ''Invalid admin key''\<rparr>, srv, [])
      else
        let ip = property (body req) ''ip'' in
        if \<not> truthy ip then
          ((reply 400 False)\<lparr>error := Some ''IP address required''\<rparr>, srv, [])
        else
          let srv' = srv\<lparr>ipManager := blockIP ip (ipManager srv)\<rparr> in
          if to_string_throws ip then
            ((reply 500 False)\<lparr>error := Some ''Internal server error''\<rparr>, srv', [])
          else
            ((reply 200 True)
               \<lparr>message := Some [Lit ''IP '', Sub ip, Lit '' blocked successfully''],
                status := Some (getStatus (ipManager srv'))\<rparr>,
             srv', []))"

definition admin_allow_ip :: "env \<Rightarrow> request \<Rightarrow> server \<Rightarrow> outcome" where
  "admin_allow_ip e req srv =
     (let adminKey = x_admin_key req in
      if adminKey \<noteq> expectedAdminKey e then
        ((reply 401 False)\<lparr>error := Some ''Invalid admin key''\<rparr>, srv, [])
      else
        let ip = property (body req) ''ip'' in
        if \<not> truthy ip then
          ((reply 400 False)\<lparr>error := Some ''IP address required''\<rparr>, srv, [])
        else
          let srv' = srv\<lparr>ipManager := allowIP ip (ipManager srv)\<rparr> in
          if to_string_throws ip then
            ((reply 500 False)\<lparr>error := Some ''Internal server error''\<rparr>, srv', [])
          else
            ((reply 200 True)
               \<lparr>message := Some [Lit ''IP '', Sub ip, Lit '' allowed successfully''],
                status := Some (getStatus (ipManager srv'))\<rparr>,
             srv', []))"

definition admin_remove_ip :: "env \<Rightarrow> request \<Rightarrow> server \<Rightarrow> outcome" where
  "admin_remove_ip e req srv =
     (let adminKey = x_admin_key req in
      if adminKey \<noteq> expectedAdminKey e then
        ((reply 401 False)\<lparr>error := Some ''Invalid admin key''\<rparr>, srv, [])
      else
        let ip = property (body req) ''ip'' in
        if \<not> truthy ip then
          ((reply 400 False)\<lparr>error := Some ''IP address required''\<rparr>, srv, [])
        else
          let srv' = srv\<lparr>ipManager := removeIP ip (ipManager srv)\<rparr> in
          if to_string_throws ip then
            ((reply 500 False)\<lparr>error := Some ''Internal server error''\<rparr>, srv', [])
          else
            ((reply 200 True)
               \<lparr>message := Some [Lit ''IP '', Sub ip, Lit '' removed from all lists''],
                status := Some (getStatus (ipManager srv'))\<rparr>,
             srv', []))"

text \<open>\<^verbatim>\<open>['whitelist', 'blacklist'].includes(mode)\<close> compares with the two strings.\<close>

definition invalid_mode_text :: string where
  \<open>invalid_mode_text = ''Mode must be "whitelist" or "blacklist"''\<close>

definition admin_set_mode :: "env \<Rightarrow> request \<Rightarrow> server \<Rightarrow> outcome" where
  "admin_set_mode e req srv =
     (let adminKey = x_admin_key req in
      if adminKey \<noteq> expectedAdminKey e then
        ((reply 401 False)\<lparr>error := Some ''Invalid admin key''\<rparr>, srv, [])
      else
        let m = property (body req) ''mode'' in
        if \<not> truthy m \<or> \<not> (m = JStr (js ''whitelist'') \<or> m = JStr (js ''blacklist'')) then
          ((reply 400 False)\<lparr>error := Some invalid_mode_text\<rparr>,
           srv, [])
        else
          let srv' = srv\<lparr>ipManager := setMode m (ipManager srv)\<rparr> in
          ((reply 200 True)
             \<lparr>message := Some [Lit ''IP filtering mode set to '', Sub m],
              status := Some (getStatus (ipManager srv'))\<rparr>,
           srv', []))"

subsection \<open>The webhook routes\<close>

text \<open>
  \<^verbatim>\<open>POST /api/webhook\<close> forwards the body. Its webhook address has a built-in default, so
  the branch for a missing address is never taken. A failed answer and a thrown call end in
  different messages.
\<close>

definition webhook :: "fetched \<Rightarrow> request \<Rightarrow> server \<Rightarrow> outcome" where
  "webhook answer req srv =
     (if length (body req) = 0 then
        ((reply 400 False)\<lparr>error := Some ''Request body is required''\<rparr>, srv, [])
      else
        (case answer of
           Accepted \<Rightarrow> (reply 200 True)\<lparr>message := Some [Lit ''Webhook sent successfully'']\<rparr>
         | Refused \<Rightarrow> (reply 500 False)\<lparr>error := Some ''Failed to send webhook to Discord''\<rparr>
         | Threw \<Rightarrow> (reply 500 False)\<lparr>error := Some ''Internal server error''\<rparr>,
         srv, [Forwarded (body req)]))"

definition expectedApiKey :: "env \<Rightarrow> jsval" where
  "expectedApiKey e = js_or (API_KEY e) (JStr (js default_key))"

text \<open>
  The checkout handler: the key, the required fields, the identifier, then the notification.
  The text of the notification is a template literal over values of the body; when a
  conversion throws, nothing is sent. A failed answer throws as well. In each case the
  \<^verbatim>\<open>catch\<close> answers 500 and the identifier stays in the set. The payment handler has
  the same shape; it reads \<^verbatim>\<open>name\<close> and \<^verbatim>\<open>email\<close> of \<^verbatim>\<open>customerInfo\<close> only when that is
  truthy.
\<close>

definition checkout :: "env \<Rightarrow> fetched \<Rightarrow> request \<Rightarrow> server \<Rightarrow> outcome" where
  "checkout e answer req srv =
     (let apiKey = x_api_key req in
      if apiKey \<noteq> expectedApiKey e then
        ((reply 401 False)\<lparr>error := Some ''Invalid API key''\<rparr>, srv, [])
      else
        let tid = property (body req) ''transactionId'';
            customerName = property (body req) ''customerName'';
            customerEmail = property (body req) ''customerEmail'';
            customerDiscord = property (body req) ''customerDiscord''
        in
        if \<not> truthy tid \<or> \<not> truthy customerName \<or> \<not> truthy customerEmail then
          ((reply 400 False)
             \<lparr>error := Some ''Missing required fields: transactionId, customerName, customerEmail''\<rparr>,
           srv, [])
        else
          (case admit (usedTransactionIds srv) tid of
             (Inl err, used) \<Rightarrow> ((reply 400 False)\<lparr>error := Some err\<rparr>, srv, [])
           | (Inr cleanId, used) \<Rightarrow>
               if to_string_throws customerName \<or> to_string_throws customerEmail \<or>
                  to_string_throws (js_or customerDiscord (JStr (js ''Not provided'')))
               then
                 ((reply 500 False)\<lparr>error := Some ''Failed to send checkout notification''\<rparr>,
                  srv\<lparr>usedTransactionIds := used\<rparr>, [])
               else
                 (case answer of
                    Accepted \<Rightarrow>
                      (reply 200 True)
                        \<lparr>message := Some [Lit ''Checkout notification sent''],
                         transactionId := Some cleanId, validated := Some True\<rparr>
                  | Refused \<Rightarrow>
                      (reply 500 False)\<lparr>error := Some ''Failed to send checkout notification''\<rparr>
                  | Threw \<Rightarrow>
                      (reply 500 False)\<lparr>error := Some ''Failed to send checkout notification''\<rparr>,
                  srv\<lparr>usedTransactionIds := used\<rparr>,
                  [CheckoutStarted cleanId (clientIP req)])))"

definition payment :: "env \<Rightarrow> fetched \<Rightarrow> request \<Rightarrow> server \<Rightarrow> outcome" where
  "payment e answer req srv =
     (let apiKey = x_api_key req in
      if apiKey \<noteq> expectedApiKey e then
        ((reply 401 False)\<lparr>error := Some ''Invalid API key''\<rparr>, srv, [])
      else
        let tid = property (body req) ''transactionId'';
            amount = property (body req) ''amount'';
            cryptoAddress = property (body req) ''cryptoAddress'';
            customerInfo = property (body req) ''customerInfo''
        in
        if \<not> truthy tid then
          ((reply 400 False)\<lparr>error := Some ''Missing required field: transactionId''\<rparr>, srv, [])
        else
          (case admit (usedTransactionIds srv) tid of
             (Inl err, used) \<Rightarrow> ((reply 400 False)\<lparr>error := Some err\<rparr>, srv, [])
           | (Inr cleanId, used) \<Rightarrow>
               if to_string_throws (js_or amount (JStr (js ''Unknown''))) \<or>
                  to_string_throws (js_or cryptoAddress (JStr (js ''Not provided''))) \<or>
                  (truthy customerInfo \<and>
                   (to_string_throws
                      (js_or (property_of customerInfo ''name'') (JStr (js ''Unknown''))) \<or>
                    to_string_throws
                      (js_or (property_of customerInfo ''email'') (JStr (js ''Unknown'')))))
               then
                 ((reply 500 False)\<lparr>error := Some ''Failed to send payment notification''\<rparr>,
                  srv\<lparr>usedTransactionIds := used\<rparr>, [])
               else
                 (case answer of
                    Accepted \<Rightarrow>
                      (reply 200 True)
                        \<lparr>message := Some [Lit ''Payment notification sent''],
                         transactionId := Some cleanId, validated := Some True\<rparr>
                  | Refused \<Rightarrow>
                      (reply 500 False)\<lparr>error := Some ''Failed to send payment notification''\<rparr>
                  | Threw \<Rightarrow>
                      (reply 500 False)\<lparr>error := Some ''Failed to send payment notification''\<rparr>,
                  srv\<lparr>usedTransactionIds := used\<rparr>,
                  [PaymentDetected cleanId (clientIP req)])))"

subsection \<open>The routes\<close>

text \<open>
  The routes that read or write the two pieces of state, as \<^verbatim>\<open>app.get\<close> and
  \<^verbatim>\<open>app.post\<close> register them:
  \<^verbatim>\<open>checkIPAccess\<close> is named in the registration of the checkout and the payment route
  and of no other. The rate limiter, the CORS check and the static files come before every
  route and touch neither set; they are left out, as are the health, configuration and
  test routes.
\<close>

datatype endpoint =
    ApiWebhook
  | ApiWebhookCheckout
  | ApiWebhookPayment
  | ApiAdminIpStatus
  | ApiAdminBlockIp
  | ApiAdminAllowIp
  | ApiAdminRemoveIp
  | ApiAdminSetMode

fun serve :: "env \<Rightarrow> fetched \<Rightarrow> endpoint \<Rightarrow> request \<Rightarrow> server \<Rightarrow> outcome" where
  "serve e answer ApiWebhook req srv = webhook answer req srv"
| "serve e answer ApiWebhookCheckout req srv = checkIPAccess req srv (checkout e answer req)"
| "serve e answer ApiWebhookPayment req srv = checkIPAccess req srv (payment e answer req)"
| "serve e answer ApiAdminIpStatus req srv = admin_ip_status e req srv"
| "serve e answer ApiAdminBlockIp req srv = admin_block_ip e req srv"
| "serve e answer ApiAdminAllowIp req srv = admin_allow_ip e req srv"
| "serve e answer ApiAdminRemoveIp req srv = admin_remove_ip e req srv"
| "serve e answer ApiAdminSetMode req srv = admin_set_mode e req srv"

text \<open>
  A run of the process from some state: the requests are served one after the other, each
  with its route and with the answer the chat webhook gives to it. A handler writes the
  state before its only \<^verbatim>\<open>await\<close>, so this is the state in the order in which the handlers
  start.
\<close>

definition serve_all :: "env \<Rightarrow> server \<Rightarrow> (fetched \<times> endpoint \<times> request) list \<Rightarrow> server" where
  "serve_all e srv rs =
     foldl (\<lambda>s (answer, ep, req). fst (snd (serve e answer ep req s))) srv rs"

subsection \<open>Plain inputs\<close>

text \<open>
  A request with no header set, no peer address and the empty body \<^verbatim>\<open>{}\<close>, and an
  environment with neither key set; concrete requests are written as updates of these.
\<close>

definition bare_request :: request where
  "bare_request =
     \<lparr>x_forwarded_for = JUndefined, x_real_ip = JUndefined, x_admin_key = JUndefined,
      x_api_key = JUndefined, connection_remoteAddress = JUndefined,
      socket_remoteAddress = JUndefined, req_ip = JUndefined, body = []\<rparr>"

definition unset_env :: env where
  "unset_env = \<lparr>ADMIN_KEY = JUndefined, API_KEY = JUndefined\<rparr>"

section \<open>Properties of the admission of identifiers\<close>

lemma in_class_not_whitespace: "in_class c \<Longrightarrow> \<not> is_whitespace c"
  by (auto simp: in_class_def is_whitespace_def)

lemma dropWhile_class: "list_all in_class s \<Longrightarrow> dropWhile is_whitespace s = s"
  by (cases s) (simp_all add: in_class_not_whitespace)

lemma trim_class: "list_all in_class s \<Longrightarrow> trim s = s"
proof -
  assume a: "list_all in_class s"
  then have "list_all in_class (rev s)" by (simp add: list_all_iff)
  then have "dropWhile is_whitespace (rev s) = rev s" by (rule dropWhile_class)
  with a show ?thesis by (simp add: trim_def dropWhile_class)
qed

lemma class_no_space: "list_all in_class s \<Longrightarrow> \<not> includes_space s"
  by (auto simp: includes_space_def list_all_iff in_class_def)

lemma validate_fresh:
  "validateTransactionId used x = Inr c \<longleftrightarrow> validateTransactionId [] x = Inr c \<and> c \<notin> set used"
  by (auto simp: validateTransactionId_def Let_def set_has_def split: if_splits)

lemma validate_used:
  "validateTransactionId [] x = Inr c \<Longrightarrow> c \<in> set used \<Longrightarrow>
   validateTransactionId used x = Inl ''Transaction ID has already been used''"
  by (auto simp: validateTransactionId_def Let_def set_has_def split: if_splits)





lemma webhook_state: "fst (snd (webhook answer req srv)) = srv"
  by (simp add: webhook_def)







lemma validate_spec:
  "validateTransactionId used raw =
     map_sum error_text id (fst (spec_validate_and_admit (set used) raw))"
  by (cases raw)
    (simp_all add: validateTransactionId_def spec_validate_and_admit_def Let_def
       includes_space_def regex_test_def set_has_def list_ex_iff list_all_iff)

lemma admit_spec_result:
  "fst (admit used raw) = map_sum error_text id (fst (spec_validate_and_admit (set used) raw))"
  by (simp add: admit_def validate_spec [symmetric] split: sum.splits)

lemma admit_spec_ledger:
  "set (snd (admit used raw)) = snd (spec_validate_and_admit (set used) raw)"
  by (cases raw)
    (auto simp add: admit_def validateTransactionId_def spec_validate_and_admit_def Let_def
       includes_space_def regex_test_def set_has_def set_add_def list_ex_iff list_all_iff)

lemma admit_rejected: "isl (fst (admit used raw)) \<Longrightarrow> snd (admit used raw) = used"
  by (simp add: admit_def split: sum.splits)

lemma validate_class:
  "list_all in_class s \<Longrightarrow> validateTransactionId used (JStr s) =
     (if s = [] then Inl (error_text Empty)
      else if length s < 8 then Inl (error_text TooShort)
      else if length s > 100 then Inl (error_text TooLong)
      else if s \<in> set used then Inl (error_text AlreadyUsed)
      else Inr s)"
  by (auto simp: validateTransactionId_def Let_def trim_class class_no_space regex_test_def
      set_has_def)

lemma inj_error_text: "inj error_text"
proof (rule injI)
  fix a b assume "error_text a = error_text b"
  then show "a = b" by (cases a; cases b) simp_all
qed

lemma dropWhile_padded:
  assumes "list_all P l" and "s \<noteq> [] \<Longrightarrow> \<not> P (hd s)" and "s = [] \<Longrightarrow> list_all P r"
  shows "dropWhile P (l @ s @ r) = s @ (if s = [] then [] else r)"
proof (cases s)
  case Nil
  with assms show ?thesis by (simp add: list_all_iff)
next
  case (Cons a t)
  with assms(2) have "\<not> P a" by simp
  with assms(1) Cons show ?thesis by (simp add: list_all_iff dropWhile_append2)
qed

lemma trim_padded:
  assumes l: "list_all is_whitespace l" and r: "list_all is_whitespace r"
    and s: "s \<noteq> [] \<Longrightarrow> \<not> is_whitespace (hd s) \<and> \<not> is_whitespace (last s)"
  shows "trim (l @ s @ r) = s"
proof (cases "s = []")
  case True
  have d: "dropWhile is_whitespace (l @ [] @ r) = []"
    unfolding dropWhile_eq_Nil_conv using l r by (auto simp add: list_all_iff)
  show ?thesis unfolding True trim_def d by simp
next
  case False
  with s have h: "\<not> is_whitespace (hd s)" and t: "\<not> is_whitespace (last s)" by simp_all
  have "dropWhile is_whitespace (l @ s @ r) = s @ r"
    using dropWhile_padded [of is_whitespace l s r] l h False by simp
  moreover have "dropWhile is_whitespace (rev r @ rev s @ []) = rev s"
    using dropWhile_padded [of is_whitespace "rev r" "rev s" "[]"] r t False
    by (simp add: list_all_iff hd_rev)
  ultimately show ?thesis by (simp add: trim_def)
qed

lemma validate_trimmed:
  assumes l: "list_all is_whitespace l" and r: "list_all is_whitespace r"
    and s: "s \<noteq> [] \<longrightarrow> \<not> is_whitespace (hd s) \<and> \<not> is_whitespace (last s)"
    and ne: "l @ s @ r \<noteq> []"
  shows "validateTransactionId used (JStr (l @ s @ r)) =
     (if length s < 8 then Inl (error_text TooShort)
      else if length s > 100 then Inl (error_text TooLong)
      else if 0x20 \<in> set s then Inl (error_text ContainsWhitespace)
      else if \<not> list_all in_class s then Inl (error_text InvalidCharset)
      else if s \<in> set used then Inl (error_text AlreadyUsed)
      else Inr s)"
proof -
  have t: "trim (l @ s @ r) = s" using l r s by (intro trim_padded) simp_all
  have "truthy (JStr (l @ s @ r))" using ne by simp
  then show ?thesis
    unfolding validateTransactionId_def Let_def
    by (simp add: t includes_space_def regex_test_def set_has_def del: truthy.simps append_is_Nil_conv)
qed

text \<open>
  C2. For every input \<open>raw\<close> and every set \<open>used\<close>, the result of an admission is the one
  the six ordered checks of the specification give on the trimmed value, each rejection
  with the message of its kind, and the messages tell the kinds apart; the set afterwards
  holds what the specification's ledger holds; a rejection leaves the set as it was. A
  string \<open>s\<close> of characters of the class, not used yet, is admitted when it has 8 or 100
  characters, is too short with 7 and too long with 101. Trimming takes the whitespace
  \<open>l\<close> and \<open>r\<close> off both ends of an input \<open>l @ t @ r\<close> whose middle \<open>t\<close> neither begins
  nor ends with whitespace, and every check after the first is made on \<open>t\<close>, which is what
  is admitted: length, then space, then class, then use.
\<close>

theorem validate_order:
  "fst (admit used raw) = map_sum error_text id (fst (spec_validate_and_admit (set used) raw)) \<and>
   set (snd (admit used raw)) = snd (spec_validate_and_admit (set used) raw) \<and>
   inj error_text \<and>
   (isl (fst (admit used raw)) \<longrightarrow> snd (admit used raw) = used) \<and>
   (list_all in_class s \<and> length s = 8 \<and> s \<notin> set used \<longrightarrow>
      admit used (JStr s) = (Inr s, used @ [s])) \<and>
   (list_all in_class s \<and> length s = 7 \<longrightarrow>
      admit used (JStr s) = (Inl (error_text TooShort), used)) \<and>
   (list_all in_class s \<and> length s = 100 \<and> s \<notin> set used \<longrightarrow>
      admit used (JStr s) = (Inr s, used @ [s])) \<and>
   (list_all in_class s \<and> length s = 101 \<longrightarrow>
      admit used (JStr s) = (Inl (error_text TooLong), used)) \<and>
   (list_all is_whitespace l \<and> list_all is_whitespace r \<and>
    (t \<noteq> [] \<longrightarrow> \<not> is_whitespace (hd t) \<and> \<not> is_whitespace (last t)) \<longrightarrow>
      trim (l @ t @ r) = t) \<and>
   (list_all is_whitespace l \<and> list_all is_whitespace r \<and>
    (t \<noteq> [] \<longrightarrow> \<not> is_whitespace (hd t) \<and> \<not> is_whitespace (last t)) \<and> l @ t @ r \<noteq> [] \<longrightarrow>
      admit used (JStr (l @ t @ r)) =
        (if length t < 8 then (Inl (error_text TooShort), used)
         else if length t > 100 then (Inl (error_text TooLong), used)
         else if 0x20 \<in> set t then (Inl (error_text ContainsWhitespace), used)
         else if \<not> list_all in_class t then (Inl (error_text InvalidCharset), used)
         else if t \<in> set used then (Inl (error_text AlreadyUsed), used)
         else (Inr t, used @ [t])))"
proof -
  have eight: "admit used (JStr s) = (Inr s, used @ [s])"
    if "list_all in_class s" "length s = 8" "s \<notin> set used"
    using that by (auto simp: admit_def validate_class set_add_def)
  have seven: "admit used (JStr s) = (Inl (error_text TooShort), used)"
    if "list_all in_class s" "length s = 7"
    using that by (auto simp: admit_def validate_class)
  have hundred: "admit used (JStr s) = (Inr s, used @ [s])"
    if "list_all in_class s" "length s = 100" "s \<notin> set used"
    using that by (auto simp: admit_def validate_class set_add_def)
  have over: "admit used (JStr s) = (Inl (error_text TooLong), used)"
    if "list_all in_class s" "length s = 101"
    using that by (auto simp: admit_def validate_class)
  have trimmed: "trim (l @ t @ r) = t"
    if "list_all is_whitespace l" "list_all is_whitespace r"
      "t \<noteq> [] \<longrightarrow> \<not> is_whitespace (hd t) \<and> \<not> is_whitespace (last t)"
    using that by (intro trim_padded) simp_all
  have padded: "admit used (JStr (l @ t @ r)) =
        (if length t < 8 then (Inl (error_text TooShort), used)
         else if length t > 100 then (Inl (error_text TooLong), used)
         else if 0x20 \<in> set t then (Inl (error_text ContainsWhitespace), used)
         else if \<not> list_all in_class t then (Inl (error_text InvalidCharset), used)
         else if t \<in> set used then (Inl (error_text AlreadyUsed), used)
         else (Inr t, used @ [t]))"
    if "list_all is_whitespace l" "list_all is_whitespace r"
      "t \<noteq> [] \<longrightarrow> \<not> is_whitespace (hd t) \<and> \<not> is_whitespace (last t)" "l @ t @ r \<noteq> []"
    unfolding admit_def validate_trimmed [OF that]
    by (simp add: set_add_def)
  from eight seven hundred over trimmed padded show ?thesis
    using admit_spec_result [of used raw] admit_spec_ledger [of used raw]
      inj_error_text admit_rejected [of used raw]
    by blast
qed

theorem validate_order_witness:
  "admit [] (JStr (js ''TXN-1234'')) = (Inr (js ''TXN-1234''), [js ''TXN-1234'']) \<and>
   admit [js ''TXN-1234''] (JStr (js ''TXN-123'')) =
     (Inl ''Transaction ID must be at least 8 characters long'', [js ''TXN-1234'']) \<and>
   admit [] (JStr (replicate 100 0x41)) = (Inr (replicate 100 0x41), [replicate 100 0x41]) \<and>
   admit [] (JStr (replicate 101 0x41)) =
     (Inl ''Transaction ID must be less than 100 characters'', []) \<and>
   snd (admit [js ''TXN-1234''] (JStr (js ''TXN-1234''))) = [js ''TXN-1234''] \<and>
   trim (js ''  a b  '') = js ''a b'' \<and>
   admit [] (JStr (js '' TXN-1234 '')) = (Inr (js ''TXN-1234''), [js ''TXN-1234'']) \<and>
   admit [] (JStr ([0x09, 0xA0] @ js ''TXN-1234'' @ [0x0D, 0x0A, 0x3000, 0xFEFF])) =
     (Inr (js ''TXN-1234''), [js ''TXN-1234'']) \<and>
   admit [js ''TXN-1234''] (JStr (js ''  TXN-1234'')) =
     (Inl ''Transaction ID has already been used'', [js ''TXN-1234'']) \<and>
   admit [] (JStr (js ''   '')) =
     (Inl ''Transaction ID must be at least 8 characters long'', []) \<and>
   admit [] (JStr (js '' TXN 1234567 '')) = (Inl ''Transaction ID cannot contain spaces'', []) \<and>
   admit [] (JStr (js ''TXN#1234'')) =
     (Inl ''Transaction ID can only contain letters, numbers, hyphens, and underscores'', [])"
proof -
  have w8: "admit [] (JStr (js ''TXN-1234'')) = (Inr (js ''TXN-1234''), [js ''TXN-1234''])"
    using validate_order [where used = "[]" and s = "js ''TXN-1234''"]
    by (simp add: js_def in_class_def)
  have w7: "admit [js ''TXN-1234''] (JStr (js ''TXN-123'')) =
      (Inl ''Transaction ID must be at least 8 characters long'', [js ''TXN-1234''])"
    using validate_order [where used = "[js ''TXN-1234'']" and s = "js ''TXN-123''"]
    by (simp add: js_def in_class_def)
  have w100: "admit [] (JStr (replicate 100 0x41)) =
      (Inr (replicate 100 0x41), [replicate 100 0x41])"
    using validate_order [where used = "[]" and s = "replicate 100 0x41"]
    by (simp add: in_class_def list_all_iff)
  have w101: "admit [] (JStr (replicate 101 0x41)) =
      (Inl ''Transaction ID must be less than 100 characters'', [])"
    using validate_order [where used = "[]" and s = "replicate 101 0x41"]
    by (simp add: in_class_def list_all_iff)
  have used: "snd (admit [js ''TXN-1234''] (JStr (js ''TXN-1234''))) = [js ''TXN-1234'']"
    using validate_order [where used = "[js ''TXN-1234'']" and raw = "JStr (js ''TXN-1234'')"]
    by (simp add: js_def in_class_def list_all_iff spec_validate_and_admit_def trim_def
        is_whitespace_def list_ex_iff)
  have t: "trim (js ''  a b  '') = js ''a b''"
    using validate_order [where l = "js ''  ''" and t = "js ''a b''" and r = "js ''  ''"]
    by (simp add: js_def is_whitespace_def)
  have p1: "admit [] (JStr (js '' TXN-1234 '')) = (Inr (js ''TXN-1234''), [js ''TXN-1234''])"
    using validate_order [where used = "[]" and l = "js '' ''" and t = "js ''TXN-1234''"
        and r = "js '' ''"]
    by (simp add: js_def is_whitespace_def in_class_def)
  have p2: "admit [] (JStr ([0x09, 0xA0] @ js ''TXN-1234'' @ [0x0D, 0x0A, 0x3000, 0xFEFF])) =
      (Inr (js ''TXN-1234''), [js ''TXN-1234''])"
    using validate_order [where used = "[]" and l = "[0x09, 0xA0]" and t = "js ''TXN-1234''"
        and r = "[0x0D, 0x0A, 0x3000, 0xFEFF]"]
    by (simp add: js_def is_whitespace_def in_class_def)
  have p3: "admit [js ''TXN-1234''] (JStr (js ''  TXN-1234'')) =
      (Inl ''Transaction ID has already been used'', [js ''TXN-1234''])"
    using validate_order [where used = "[js ''TXN-1234'']" and l = "js ''  ''"
        and t = "js ''TXN-1234''" and r = "[]"]
    by (simp add: js_def is_whitespace_def in_class_def)
  have p4: "admit [] (JStr (js ''   '')) =
      (Inl ''Transaction ID must be at least 8 characters long'', [])"
    using validate_order [where used = "[]" and l = "js ''   ''" and t = "[]" and r = "[]"]
    by (simp add: js_def is_whitespace_def)
  have p5: "admit [] (JStr (js '' TXN 1234567 '')) =
      (Inl ''Transaction ID cannot contain spaces'', [])"
    using validate_order [where used = "[]" and l = "js '' ''" and t = "js ''TXN 1234567''"
        and r = "js '' ''"]
    by (simp add: js_def is_whitespace_def)
  have p6: "admit [] (JStr (js ''TXN#1234'')) =
      (Inl ''Transaction ID can only contain letters, numbers, hyphens, and underscores'', [])"
    using validate_order [where used = "[]" and l = "[]" and t = "js ''TXN#1234''" and r = "[]"]
    by (simp add: js_def is_whitespace_def in_class_def)
  from w8 w7 w100 w101 used t p1 p2 p3 p4 p5 p6 show ?thesis by blast
qed

text \<open>
  Served one after the other, \<open>n + 1\<close> admissions of the same valid identifier, not used
  before, give one admission followed by \<open>n\<close> refusals. That the handlers never overlap
  between \<^verbatim>\<open>has\<close> and \<^verbatim>\<open>add\<close> is a matter of the event loop and not of these functions.
\<close>

lemma admit_each_used:
  "validateTransactionId [] x = Inr c \<Longrightarrow> c \<in> set used \<Longrightarrow>
   admit_each used (replicate n x) = replicate n (Inl ''Transaction ID has already been used'')"
  by (induction n) (simp_all add: admit_def validate_used)

lemma admit_each_same:
  assumes "validateTransactionId [] x = Inr c" and "c \<notin> set used"
  shows "admit_each used (replicate (Suc n) x) =
           Inr c # replicate n (Inl ''Transaction ID has already been used'')"
proof -
  have v: "validateTransactionId used x = Inr c"
    using assms by (simp add: validate_fresh [of used])
  then have "c \<in> set (snd (admit used x))"
    by (simp add: admit_def set_add_def)
  from admit_each_used [OF assms(1) this, of n] v show ?thesis
    by (simp add: admit_def)
qed

section \<open>Properties of the address lists\<close>

lemma set_set_add: "set (set_add xs x) = insert x (set xs)"
  by (auto simp: set_add_def)

lemma set_set_delete: "set (set_delete xs x) = set xs - {x}"
  by (auto simp: set_delete_def)

lemma blockIP_sets:
  "set (blockedIPs (blockIP a g)) = insert a (set (blockedIPs g))"
  "set (allowedIPs (blockIP a g)) = set (allowedIPs g) - {a}"
  "whitelistMode (blockIP a g) = whitelistMode g"
  by (simp_all add: blockIP_def set_set_add set_set_delete)

lemma allowIP_sets:
  "set (allowedIPs (allowIP a g)) = insert a (set (allowedIPs g))"
  "set (blockedIPs (allowIP a g)) = set (blockedIPs g) - {a}"
  "whitelistMode (allowIP a g) = whitelistMode g"
  by (simp_all add: allowIP_def set_set_add set_set_delete)

lemma removeIP_sets:
  "set (allowedIPs (removeIP a g)) = set (allowedIPs g) - {a}"
  "set (blockedIPs (removeIP a g)) = set (blockedIPs g) - {a}"
  "whitelistMode (removeIP a g) = whitelistMode g"
  by (simp_all add: removeIP_def set_set_delete)

lemma setMode_sets:
  "allowedIPs (setMode m g) = allowedIPs g"
  "blockedIPs (setMode m g) = blockedIPs g"
  "whitelistMode (setMode m g) = (m = JStr (js ''whitelist''))"
  by (simp_all add: setMode_def)

lemma isIPAllowed_iff:
  "isIPAllowed g addr =
     (if whitelistMode g then addr \<in> set (allowedIPs g) \<or> allowedIPs g = []
      else addr \<notin> set (blockedIPs g))"
  by (simp add: isIPAllowed_def set_has_def)

lemma apply_gate_op_disjoint:
  "set (blockedIPs g) \<inter> set (allowedIPs g) = {} \<Longrightarrow>
   set (blockedIPs (apply_gate_op g x)) \<inter> set (allowedIPs (apply_gate_op g x)) = {}"
  by (cases x) (auto simp: blockIP_sets allowIP_sets removeIP_sets setMode_sets)

lemma run_gate_ops_disjoint:
  "set (blockedIPs g) \<inter> set (allowedIPs g) = {} \<Longrightarrow>
   set (blockedIPs (run_gate_ops g ops)) \<inter> set (allowedIPs (run_gate_ops g ops)) = {}"
  unfolding run_gate_ops_def
  by (induction ops arbitrary: g) (simp_all add: apply_gate_op_disjoint)

lemma checkout_ipManager: "ipManager (fst (snd (checkout e answer req srv))) = ipManager srv"
  by (simp add: checkout_def Let_def split: prod.splits sum.splits)

lemma payment_ipManager: "ipManager (fst (snd (payment e answer req srv))) = ipManager srv"
  by (simp add: payment_def Let_def split: prod.splits sum.splits)

lemma checkIPAccess_ipManager:
  "(\<And>s. ipManager (fst (snd (next s))) = ipManager s) \<Longrightarrow>
   ipManager (fst (snd (checkIPAccess req srv next))) = ipManager srv"
  by (simp add: checkIPAccess_def)

lemma serve_disjoint:
  assumes "set (blockedIPs (ipManager srv)) \<inter> set (allowedIPs (ipManager srv)) = {}"
  shows "set (blockedIPs (ipManager (fst (snd (serve e answer ep req srv))))) \<inter>
         set (allowedIPs (ipManager (fst (snd (serve e answer ep req srv))))) = {}"
proof (cases ep)
  case ApiWebhook
  with assms show ?thesis by (simp add: webhook_state)
next
  case ApiWebhookCheckout
  with assms show ?thesis by (simp add: checkIPAccess_ipManager checkout_ipManager)
next
  case ApiWebhookPayment
  with assms show ?thesis by (simp add: checkIPAccess_ipManager payment_ipManager)
next
  case ApiAdminIpStatus
  with assms show ?thesis by (simp add: admin_ip_status_def)
next
  case ApiAdminBlockIp
  with assms show ?thesis by (auto simp add: admin_block_ip_def Let_def blockIP_sets)
next
  case ApiAdminAllowIp
  with assms show ?thesis by (auto simp add: admin_allow_ip_def Let_def allowIP_sets)
next
  case ApiAdminRemoveIp
  with assms show ?thesis by (auto simp add: admin_remove_ip_def Let_def removeIP_sets)
next
  case ApiAdminSetMode
  with assms show ?thesis by (auto simp add: admin_set_mode_def Let_def setMode_sets)
qed

lemma serve_all_disjoint:
  "set (blockedIPs (ipManager srv)) \<inter> set (allowedIPs (ipManager srv)) = {} \<Longrightarrow>
   set (blockedIPs (ipManager (serve_all e srv rs))) \<inter>
   set (allowedIPs (ipManager (serve_all e srv rs))) = {}"
  unfolding serve_all_def
proof (induction rs arbitrary: srv)
  case Nil
  then show ?case by simp
next
  case (Cons r rs)
  obtain answer ep req where r: "r = (answer, ep, req)" by (cases r)
  show ?case using Cons.IH [OF serve_disjoint [OF Cons.prems, of e answer ep req]]
    by (simp add: r)
qed

text \<open>
  C3. In whitelist mode an address is allowed exactly when it is in the allowed set or
  that set is empty; in blacklist mode exactly when it is not in the blocked set. So in
  whitelist mode with an empty allowed set every address \<open>addr\<close> is allowed, and once one
  address \<open>a\<close> has been added, \<open>a\<close> is allowed and every other address is denied.
\<close>

theorem isIPAllowed_modes:
  "(whitelistMode g \<longrightarrow>
      isIPAllowed g addr = (addr \<in> set (allowedIPs g) \<or> set (allowedIPs g) = {})) \<and>
   (\<not> whitelistMode g \<longrightarrow> isIPAllowed g addr = (addr \<notin> set (blockedIPs g))) \<and>
   (whitelistMode g \<and> set (allowedIPs g) = {} \<longrightarrow>
      isIPAllowed g addr \<and> isIPAllowed (allowIP a g) a \<and>
      (\<forall>other. other \<noteq> a \<longrightarrow> \<not> isIPAllowed (allowIP a g) other))"
proof -
  have "\<not> isIPAllowed (allowIP a g) other"
    if "whitelistMode g" "allowedIPs g = []" "other \<noteq> a" for other
  proof -
    have "set (allowedIPs (allowIP a g)) = {a}" using that by (simp add: allowIP_sets)
    moreover have "allowedIPs (allowIP a g) \<noteq> []" using calculation by auto
    ultimately show ?thesis using that by (simp add: isIPAllowed_iff allowIP_sets)
  qed
  moreover have "isIPAllowed (allowIP a g) a" if "whitelistMode g"
    using that by (simp add: isIPAllowed_iff allowIP_sets)
  ultimately show ?thesis by (auto simp: isIPAllowed_iff)
qed

theorem isIPAllowed_modes_witness:
  "isIPAllowed (setMode (JStr (js ''whitelist'')) initial_ipManager) (js ''1.2.3.4'') \<and>
   isIPAllowed (allowIP (js ''5.6.7.8'') (setMode (JStr (js ''whitelist'')) initial_ipManager))
     (js ''5.6.7.8'') \<and>
   \<not> isIPAllowed (allowIP (js ''5.6.7.8'') (setMode (JStr (js ''whitelist'')) initial_ipManager))
     (js ''1.2.3.4'') \<and>
   \<not> isIPAllowed (blockIP (js ''9.9.9.9'') initial_ipManager) (js ''9.9.9.9'') \<and>
   isIPAllowed (blockIP (js ''9.9.9.9'') initial_ipManager) (js ''1.1.1.1'')"
proof -
  let ?w = "setMode (JStr (js ''whitelist'')) (initial_ipManager :: jsstring ip_manager)"
  let ?b = "blockIP (js ''9.9.9.9'') (initial_ipManager :: jsstring ip_manager)"
  have w: "whitelistMode ?w \<and> set (allowedIPs ?w) = {}"
    by (simp add: setMode_def initial_ipManager_def)
  have ne: "js ''1.2.3.4'' \<noteq> js ''5.6.7.8''"
    by (simp add: js_def)
  have b: "\<not> whitelistMode ?b"
    by (simp add: blockIP_def initial_ipManager_def)
  have bs: "set (blockedIPs ?b) = {js ''9.9.9.9''}"
    by (simp add: blockIP_def initial_ipManager_def set_add_def)
  have nb: "js ''1.1.1.1'' \<noteq> js ''9.9.9.9''"
    by (simp add: js_def)
  from isIPAllowed_modes [of ?w "js ''1.2.3.4''" "js ''5.6.7.8''"] w ne
  have "isIPAllowed ?w (js ''1.2.3.4'') \<and> isIPAllowed (allowIP (js ''5.6.7.8'') ?w) (js ''5.6.7.8'') \<and>
        \<not> isIPAllowed (allowIP (js ''5.6.7.8'') ?w) (js ''1.2.3.4'')"
    by blast
  moreover from isIPAllowed_modes [of ?b "js ''9.9.9.9''"] b bs
  have "\<not> isIPAllowed ?b (js ''9.9.9.9'')" by simp
  moreover from isIPAllowed_modes [of ?b "js ''1.1.1.1''"] b bs nb
  have "isIPAllowed ?b (js ''1.1.1.1'')" by simp
  ultimately show ?thesis by blast
qed

text \<open>
  C4. From the empty object, after any run of \<^verbatim>\<open>blockIP\<close>, \<^verbatim>\<open>allowIP\<close>, \<^verbatim>\<open>removeIP\<close> and
  \<^verbatim>\<open>setMode\<close>, and likewise after any run of requests to the routes of the process, no
  address is in both sets. Blocking takes the address out of the allowed set and allowing
  takes it out of the blocked set; after allowing and then blocking \<open>a\<close>, it is in the
  blocked set only and, in blacklist mode, it is denied.
\<close>

theorem lists_stay_disjoint:
  "set (blockedIPs (run_gate_ops initial_ipManager ops)) \<inter>
     set (allowedIPs (run_gate_ops initial_ipManager ops)) = {} \<and>
   set (blockedIPs (ipManager (serve_all e initial_server rs))) \<inter>
     set (allowedIPs (ipManager (serve_all e initial_server rs))) = {} \<and>
   a \<notin> set (allowedIPs (blockIP a g)) \<and>
   a \<notin> set (blockedIPs (allowIP a g)) \<and>
   a \<in> set (blockedIPs (blockIP a (allowIP a g))) \<and>
   a \<notin> set (allowedIPs (blockIP a (allowIP a g))) \<and>
   (\<not> whitelistMode g \<longrightarrow> \<not> isIPAllowed (blockIP a (allowIP a g)) a)"
proof -
  have init: "set (blockedIPs (initial_ipManager :: 'a ip_manager)) \<inter>
              set (allowedIPs (initial_ipManager :: 'a ip_manager)) = {}"
    by (simp add: initial_ipManager_def)
  have init': "set (blockedIPs (ipManager initial_server)) \<inter>
              set (allowedIPs (ipManager initial_server)) = {}"
    by (simp add: initial_server_def initial_ipManager_def)
  show ?thesis
    using run_gate_ops_disjoint [OF init, of ops] serve_all_disjoint [OF init', of e rs]
    by (simp add: blockIP_sets allowIP_sets isIPAllowed_iff)
qed

theorem lists_stay_disjoint_witness:
  "\<not> whitelistMode (initial_ipManager :: jsstring ip_manager) \<and>
   blockedIPs (blockIP (js ''9.9.9.9'') (allowIP (js ''9.9.9.9'') initial_ipManager)) =
     [js ''9.9.9.9''] \<and>
   allowedIPs (blockIP (js ''9.9.9.9'') (allowIP (js ''9.9.9.9'') initial_ipManager)) = [] \<and>
   \<not> isIPAllowed (blockIP (js ''9.9.9.9'') (allowIP (js ''9.9.9.9'') initial_ipManager))
     (js ''9.9.9.9'')"
proof -
  have m: "\<not> whitelistMode (initial_ipManager :: jsstring ip_manager)"
    by (simp add: initial_ipManager_def)
  have l: "blockedIPs (blockIP (js ''9.9.9.9'') (allowIP (js ''9.9.9.9'') initial_ipManager)) =
             [js ''9.9.9.9''] \<and>
           allowedIPs (blockIP (js ''9.9.9.9'') (allowIP (js ''9.9.9.9'') initial_ipManager)) = []"
    by (simp add: blockIP_def allowIP_def initial_ipManager_def set_add_def set_delete_def)
  from lists_stay_disjoint [of "[]" _ "[]" "js ''9.9.9.9''" initial_ipManager] m l
  show ?thesis by blast
qed

text \<open>
  C10. In whitelist mode the answer of \<^verbatim>\<open>isIPAllowed\<close> is the same for two objects with
  the same allowed set, whatever their blocked sets hold. After blocking \<open>a\<close> and switching
  to whitelist mode, when the allowed set is empty, \<open>a\<close> is allowed although it is still
  in the blocked set.
\<close>

theorem whitelist_ignores_blocked:
  "(whitelistMode g \<and> whitelistMode g' \<and> allowedIPs g = allowedIPs g' \<longrightarrow>
      isIPAllowed g a = isIPAllowed g' a) \<and>
   (allowedIPs (blockIP a g) = [] \<longrightarrow>
      isIPAllowed (setMode (JStr (js ''whitelist'')) (blockIP a g)) a \<and>
      a \<in> set (blockedIPs (setMode (JStr (js ''whitelist'')) (blockIP a g))))"
  by (simp add: isIPAllowed_iff setMode_sets blockIP_sets)

theorem whitelist_ignores_blocked_witness:
  "allowedIPs (blockIP (js ''9.9.9.9'') initial_ipManager) = [] \<and>
   isIPAllowed (setMode (JStr (js ''whitelist'')) (blockIP (js ''9.9.9.9'') initial_ipManager))
     (js ''9.9.9.9'') \<and>
   blockedIPs (setMode (JStr (js ''whitelist'')) (blockIP (js ''9.9.9.9'') initial_ipManager)) =
     [js ''9.9.9.9''] \<and>
   isIPAllowed (setMode (JStr (js ''whitelist'')) (blockIP (js ''9.9.9.9'') initial_ipManager))
     (js ''1.1.1.1'') =
   isIPAllowed (setMode (JStr (js ''whitelist'')) initial_ipManager) (js ''1.1.1.1'')"
proof -
  let ?i = "initial_ipManager :: jsstring ip_manager"
  let ?w = "setMode (JStr (js ''whitelist'')) (blockIP (js ''9.9.9.9'') ?i)"
  let ?w' = "setMode (JStr (js ''whitelist'')) ?i"
  have e: "allowedIPs (blockIP (js ''9.9.9.9'') ?i) = []"
    by (simp add: blockIP_def initial_ipManager_def set_delete_def)
  have b: "blockedIPs ?w = [js ''9.9.9.9'']"
    by (simp add: setMode_def blockIP_def initial_ipManager_def set_add_def)
  have m: "whitelistMode ?w \<and> whitelistMode ?w' \<and> allowedIPs ?w = allowedIPs ?w'"
    by (simp add: setMode_def blockIP_def initial_ipManager_def set_delete_def)
  from whitelist_ignores_blocked [where g = ?i and a = "js ''9.9.9.9''"] e
  have "isIPAllowed ?w (js ''9.9.9.9'')" by blast
  moreover from whitelist_ignores_blocked [where g = ?w and g' = ?w' and a = "js ''1.1.1.1''"] m
  have "isIPAllowed ?w (js ''1.1.1.1'') = isIPAllowed ?w' (js ''1.1.1.1'')" by blast
  ultimately show ?thesis using e b by blast
qed

section \<open>Properties of the routes\<close>

text \<open>
  The handlers on a body whose values do not convert to a string: the identifier is in the
  set, nothing is sent and the answer is 500. A \<^verbatim>\<open>customerInfo\<close> that is a string has no
  \<^verbatim>\<open>name\<close>, and the notification goes out.
\<close>

lemma checkout_conversion_throws_example:
  "checkout unset_env Accepted
       (bare_request\<lparr>x_api_key := JStr (js default_key),
          body := [(js ''transactionId'', JStr (js ''TXN-12345678'')),
                   (js ''customerName'', JObj 0 [(js ''toString'', JNum 1)]),
                   (js ''customerEmail'', JStr (js ''a@b.c''))]\<rparr>) initial_server =
     ((reply 500 False)\<lparr>error := Some ''Failed to send checkout notification''\<rparr>,
      initial_server\<lparr>usedTransactionIds := [js ''TXN-12345678'']\<rparr>, [])"
  by (simp add: Let_def checkout_def expectedApiKey_def unset_env_def js_or_def property_def
      admit_def validateTransactionId_def trim_def is_whitespace_def includes_space_def
      regex_test_def in_class_def set_has_def set_add_def initial_server_def js_def)

lemma payment_conversion_throws_example:
  "payment unset_env Accepted
       (bare_request\<lparr>x_api_key := JStr (js default_key),
          body := [(js ''transactionId'', JStr (js ''TXN-12345678'')),
                   (js ''customerInfo'',
                    JObj 0 [(js ''name'', JObj 1 [(js ''toString'', JNum 1)])])]\<rparr>)
       initial_server =
     ((reply 500 False)\<lparr>error := Some ''Failed to send payment notification''\<rparr>,
      initial_server\<lparr>usedTransactionIds := [js ''TXN-12345678'']\<rparr>, []) \<and>
   snd (snd (payment unset_env Accepted
       (bare_request\<lparr>x_api_key := JStr (js default_key),
          body := [(js ''transactionId'', JStr (js ''TXN-12345678'')),
                   (js ''customerInfo'', JStr (js ''none''))]\<rparr>)
       initial_server)) = [PaymentDetected (js ''TXN-12345678'') (JStr (js ''Unknown''))]"
  by (simp add: Let_def payment_def expectedApiKey_def unset_env_def js_or_def property_def
      admit_def validateTransactionId_def trim_def is_whitespace_def includes_space_def
      regex_test_def in_class_def set_has_def set_add_def initial_server_def js_def
      clientIP_def bare_request_def)

text \<open>
  C5, as the code has it. On the checkout and the payment route \<^verbatim>\<open>checkIPAccess\<close> runs
  first. When the address of the client is not allowed, the answer is 403 with the message
  \<^verbatim>\<open>Access denied from this IP address\<close> and the address, the state is unchanged and
  nothing is sent, whatever handler \<open>next\<close> stands behind the check: neither the key nor
  the identifier is looked at. When the address is allowed, the answer is the handler's,
  which compares the key first and answers 401, leaving state and chat webhook alone, when
  it differs.
\<close>

theorem gate_before_handlers:
  "(\<not> isIPAllowed (ipManager srv) (clientIP req) \<longrightarrow>
      serve e answer ApiWebhookCheckout req srv =
        ((reply 403 False)
           \<lparr>error := Some ''Access denied from this IP address'', ip := Some (clientIP req)\<rparr>,
         srv, []) \<and>
      serve e answer ApiWebhookPayment req srv =
        ((reply 403 False)
           \<lparr>error := Some ''Access denied from this IP address'', ip := Some (clientIP req)\<rparr>,
         srv, []) \<and>
      checkIPAccess req srv next =
        ((reply 403 False)
           \<lparr>error := Some ''Access denied from this IP address'', ip := Some (clientIP req)\<rparr>,
         srv, [])) \<and>
   (isIPAllowed (ipManager srv) (clientIP req) \<longrightarrow>
      serve e answer ApiWebhookCheckout req srv = checkout e answer req srv \<and>
      serve e answer ApiWebhookPayment req srv = payment e answer req srv \<and>
      checkIPAccess req srv next = next srv) \<and>
   (x_api_key req \<noteq> expectedApiKey e \<longrightarrow>
      checkout e answer req srv =
        ((reply 401 False)\<lparr>error := Some ''Invalid API key''\<rparr>, srv, []) \<and>
      payment e answer req srv =
        ((reply 401 False)\<lparr>error := Some ''Invalid API key''\<rparr>, srv, []))"
  by (simp add: checkIPAccess_def checkout_def payment_def)

theorem gate_before_handlers_witness:
  "\<not> isIPAllowed
       (ipManager (initial_server\<lparr>ipManager := blockIP (JStr (js ''9.9.9.9'')) initial_ipManager\<rparr>))
       (clientIP (bare_request\<lparr>socket_remoteAddress := JStr (js ''9.9.9.9'')\<rparr>)) \<and>
   serve unset_env Accepted ApiWebhookCheckout
       (bare_request\<lparr>socket_remoteAddress := JStr (js ''9.9.9.9'')\<rparr>)
       (initial_server\<lparr>ipManager := blockIP (JStr (js ''9.9.9.9'')) initial_ipManager\<rparr>) =
     ((reply 403 False)
        \<lparr>error := Some ''Access denied from this IP address'',
         ip := Some (JStr (js ''9.9.9.9''))\<rparr>,
      initial_server\<lparr>ipManager := blockIP (JStr (js ''9.9.9.9'')) initial_ipManager\<rparr>, []) \<and>
   isIPAllowed (ipManager initial_server)
       (clientIP (bare_request\<lparr>socket_remoteAddress := JStr (js ''9.9.9.9'')\<rparr>)) \<and>
   x_api_key (bare_request\<lparr>socket_remoteAddress := JStr (js ''9.9.9.9'')\<rparr>) \<noteq>
     expectedApiKey unset_env \<and>
   serve unset_env Accepted ApiWebhookCheckout
       (bare_request\<lparr>socket_remoteAddress := JStr (js ''9.9.9.9'')\<rparr>) initial_server =
     ((reply 401 False)\<lparr>error := Some ''Invalid API key''\<rparr>, initial_server, [])"
proof -
  let ?req = "bare_request\<lparr>socket_remoteAddress := JStr (js ''9.9.9.9'')\<rparr>"
  let ?srv = "initial_server\<lparr>ipManager := blockIP (JStr (js ''9.9.9.9'')) initial_ipManager\<rparr>"
  have ip: "clientIP ?req = JStr (js ''9.9.9.9'')"
    by (simp add: clientIP_def js_or_def bare_request_def js_def)
  have denied: "\<not> isIPAllowed (ipManager ?srv) (clientIP ?req)"
    by (simp add: ip isIPAllowed_def set_has_def blockIP_def set_add_def initial_ipManager_def)
  have allowed: "isIPAllowed (ipManager initial_server) (clientIP ?req)"
    by (simp add: ip isIPAllowed_def set_has_def initial_server_def initial_ipManager_def)
  have key: "x_api_key ?req \<noteq> expectedApiKey unset_env"
    by (simp add: bare_request_def expectedApiKey_def unset_env_def js_or_def)
  from gate_before_handlers [of ?srv ?req unset_env Accepted] denied
  have one: "serve unset_env Accepted ApiWebhookCheckout ?req ?srv =
      ((reply 403 False)
         \<lparr>error := Some ''Access denied from this IP address'', ip := Some (clientIP ?req)\<rparr>,
       ?srv, [])"
    by blast
  from gate_before_handlers [of initial_server ?req unset_env Accepted] allowed key
  have two: "serve unset_env Accepted ApiWebhookCheckout ?req initial_server =
      ((reply 401 False)\<lparr>error := Some ''Invalid API key''\<rparr>, initial_server, [])"
    by simp
  from denied one allowed key two show ?thesis by (simp only: ip) blast
qed

text \<open>
  C5 as it is worded fails: the route \<^verbatim>\<open>POST /api/webhook\<close> and the admin routes are
  registered without \<^verbatim>\<open>checkIPAccess\<close>. A client whose address is blocked gets its body
  forwarded to the chat webhook, and with the admin key it reads the status.
\<close>

theorem gate_not_on_every_route:
  "\<not> isIPAllowed
       (ipManager (initial_server\<lparr>ipManager := blockIP (JStr (js ''9.9.9.9'')) initial_ipManager\<rparr>))
       (clientIP
          (bare_request
             \<lparr>socket_remoteAddress := JStr (js ''9.9.9.9''),
              x_admin_key := JStr (js default_key),
              body := [(js ''content'', JStr (js ''hello''))]\<rparr>)) \<and>
   serve unset_env Accepted ApiWebhook
       (bare_request
          \<lparr>socket_remoteAddress := JStr (js ''9.9.9.9''),
           x_admin_key := JStr (js default_key),
           body := [(js ''content'', JStr (js ''hello''))]\<rparr>)
       (initial_server\<lparr>ipManager := blockIP (JStr (js ''9.9.9.9'')) initial_ipManager\<rparr>) =
     ((reply 200 True)\<lparr>message := Some [Lit ''Webhook sent successfully'']\<rparr>,
      initial_server\<lparr>ipManager := blockIP (JStr (js ''9.9.9.9'')) initial_ipManager\<rparr>,
      [Forwarded [(js ''content'', JStr (js ''hello''))]]) \<and>
   code (fst (serve unset_env Accepted ApiAdminIpStatus
       (bare_request
          \<lparr>socket_remoteAddress := JStr (js ''9.9.9.9''),
           x_admin_key := JStr (js default_key),
           body := [(js ''content'', JStr (js ''hello''))]\<rparr>)
       (initial_server\<lparr>ipManager := blockIP (JStr (js ''9.9.9.9'')) initial_ipManager\<rparr>))) = 200"
proof -
  let ?req = "bare_request
          \<lparr>socket_remoteAddress := JStr (js ''9.9.9.9''),
           x_admin_key := JStr (js default_key),
           body := [(js ''content'', JStr (js ''hello''))]\<rparr>"
  let ?srv = "initial_server\<lparr>ipManager := blockIP (JStr (js ''9.9.9.9'')) initial_ipManager\<rparr>"
  have ip: "clientIP ?req = JStr (js ''9.9.9.9'')"
    by (simp add: clientIP_def js_or_def bare_request_def js_def)
  have denied: "\<not> isIPAllowed (ipManager ?srv) (clientIP ?req)"
    by (simp add: ip isIPAllowed_def set_has_def blockIP_def set_add_def initial_ipManager_def)
  have forwarded: "serve unset_env Accepted ApiWebhook ?req ?srv =
      ((reply 200 True)\<lparr>message := Some [Lit ''Webhook sent successfully'']\<rparr>, ?srv,
       [Forwarded [(js ''content'', JStr (js ''hello''))]])"
    by (simp add: webhook_def)
  have key: "x_admin_key ?req = expectedAdminKey unset_env"
    by (simp add: expectedAdminKey_def unset_env_def js_or_def)
  have "code (fst (serve unset_env Accepted ApiAdminIpStatus ?req ?srv)) = 200"
    by (simp add: admin_ip_status_def key reply_def)
  with denied forwarded show ?thesis by blast
qed

text \<open>
  With the right key and an \<^verbatim>\<open>ip\<close> whose conversion to a string throws, such as
  \<^verbatim>\<open>{"toString": 1}\<close>, the sets are updated and the answer is 500 without a snapshot.
\<close>

lemma admin_ip_conversion_throws:
  assumes "x_admin_key req = expectedAdminKey e" and "to_string_throws (property (body req) ''ip'')"
  shows "admin_block_ip e req srv =
           ((reply 500 False)\<lparr>error := Some ''Internal server error''\<rparr>,
            srv\<lparr>ipManager := blockIP (property (body req) ''ip'') (ipManager srv)\<rparr>, [])"
    and "admin_allow_ip e req srv =
           ((reply 500 False)\<lparr>error := Some ''Internal server error''\<rparr>,
            srv\<lparr>ipManager := allowIP (property (body req) ''ip'') (ipManager srv)\<rparr>, [])"
    and "admin_remove_ip e req srv =
           ((reply 500 False)\<lparr>error := Some ''Internal server error''\<rparr>,
            srv\<lparr>ipManager := removeIP (property (body req) ''ip'') (ipManager srv)\<rparr>, [])"
proof -
  have "truthy (property (body req) ''ip'')"
    using assms(2) by (cases "property (body req) ''ip''") simp_all
  with assms show
    "admin_block_ip e req srv =
       ((reply 500 False)\<lparr>error := Some ''Internal server error''\<rparr>,
        srv\<lparr>ipManager := blockIP (property (body req) ''ip'') (ipManager srv)\<rparr>, [])"
    "admin_allow_ip e req srv =
       ((reply 500 False)\<lparr>error := Some ''Internal server error''\<rparr>,
        srv\<lparr>ipManager := allowIP (property (body req) ''ip'') (ipManager srv)\<rparr>, [])"
    "admin_remove_ip e req srv =
       ((reply 500 False)\<lparr>error := Some ''Internal server error''\<rparr>,
        srv\<lparr>ipManager := removeIP (property (body req) ''ip'') (ipManager srv)\<rparr>, [])"
    by (simp_all add: admin_block_ip_def admin_allow_ip_def admin_remove_ip_def Let_def)
qed

lemma admin_ip_conversion_throws_example:
  "admin_block_ip unset_env
       (bare_request\<lparr>x_admin_key := JStr (js default_key),
          body := [(js ''ip'', JObj 0 [(js ''toString'', JNum 1)])]\<rparr>) initial_server =
     ((reply 500 False)\<lparr>error := Some ''Internal server error''\<rparr>,
      initial_server
        \<lparr>ipManager :=
           \<lparr>blockedIPs = [JObj 0 [(js ''toString'', JNum 1)]], allowedIPs = [],
            whitelistMode = False\<rparr>\<rparr>, []) \<and>
   code (fst (admin_block_ip unset_env
       (bare_request\<lparr>x_admin_key := JStr (js default_key),
          body := [(js ''ip'', JObj 0 [(js ''name'', JNum 1)])]\<rparr>) initial_server)) = 200 \<and>
   code (fst (admin_block_ip unset_env
       (bare_request\<lparr>x_admin_key := JStr (js default_key),
          body := [(js ''ip'', JArr 0 [JNum 1, JObj 1 [(js ''toString'', JNull)]])]\<rparr>)
       initial_server)) = 500"
  by (simp add: Let_def admin_block_ip_def expectedAdminKey_def unset_env_def js_or_def property_def
      blockIP_def set_add_def set_delete_def initial_server_def initial_ipManager_def reply_def
      js_def)

text \<open>
  C6, as the code has it. The secret is the environment variable \<^verbatim>\<open>ADMIN_KEY\<close>, or the
  built-in key when that is unset or empty. Each admin handler compares the header with it
  first; when they differ the answer is 401 with \<^verbatim>\<open>Invalid admin key\<close> and the state
  is unchanged. When they are equal: the status route returns the snapshot and no message;
  block, allow and remove with a truthy \<^verbatim>\<open>ip\<close> in the body, one that converts to a string
  without throwing (every string, number and boolean does), call the method and return the
  snapshot taken after it, with a message; with no \<^verbatim>\<open>ip\<close> they answer 400 and change
  nothing; setting the mode does the same with its two literals.
\<close>

theorem admin_routes_authorize:
  "expectedAdminKey e = (if truthy (ADMIN_KEY e) then ADMIN_KEY e else JStr (js default_key)) \<and>
   (x_admin_key req \<noteq> expectedAdminKey e \<longrightarrow>
      admin_ip_status e req srv =
        ((reply 401 False)\<lparr>error := Some ''Invalid admin key''\<rparr>, srv, []) \<and>
      admin_block_ip e req srv =
        ((reply 401 False)\<lparr>error := Some ''Invalid admin key''\<rparr>, srv, []) \<and>
      admin_allow_ip e req srv =
        ((reply 401 False)\<lparr>error := Some ''Invalid admin key''\<rparr>, srv, []) \<and>
      admin_remove_ip e req srv =
        ((reply 401 False)\<lparr>error := Some ''Invalid admin key''\<rparr>, srv, []) \<and>
      admin_set_mode e req srv =
        ((reply 401 False)\<lparr>error := Some ''Invalid admin key''\<rparr>, srv, [])) \<and>
   (x_admin_key req = expectedAdminKey e \<longrightarrow>
      admin_ip_status e req srv =
        ((reply 200 True)\<lparr>status := Some (getStatus (ipManager srv))\<rparr>, srv, [])) \<and>
   (x_admin_key req = expectedAdminKey e \<and> truthy (property (body req) ''ip'') \<and>
    \<not> to_string_throws (property (body req) ''ip'') \<longrightarrow>
      admin_block_ip e req srv =
        ((reply 200 True)
           \<lparr>message :=
              Some [Lit ''IP '', Sub (property (body req) ''ip''), Lit '' blocked successfully''],
            status := Some (getStatus (blockIP (property (body req) ''ip'') (ipManager srv)))\<rparr>,
         srv\<lparr>ipManager := blockIP (property (body req) ''ip'') (ipManager srv)\<rparr>, []) \<and>
      admin_allow_ip e req srv =
        ((reply 200 True)
           \<lparr>message :=
              Some [Lit ''IP '', Sub (property (body req) ''ip''), Lit '' allowed successfully''],
            status := Some (getStatus (allowIP (property (body req) ''ip'') (ipManager srv)))\<rparr>,
         srv\<lparr>ipManager := allowIP (property (body req) ''ip'') (ipManager srv)\<rparr>, []) \<and>
      admin_remove_ip e req srv =
        ((reply 200 True)
           \<lparr>message :=
              Some [Lit ''IP '', Sub (property (body req) ''ip''), Lit '' removed from all lists''],
            status := Some (getStatus (removeIP (property (body req) ''ip'') (ipManager srv)))\<rparr>,
         srv\<lparr>ipManager := removeIP (property (body req) ''ip'') (ipManager srv)\<rparr>, [])) \<and>
   (x_admin_key req = expectedAdminKey e \<and> \<not> truthy (property (body req) ''ip'') \<longrightarrow>
      admin_block_ip e req srv =
        ((reply 400 False)\<lparr>error := Some ''IP address required''\<rparr>, srv, []) \<and>
      admin_allow_ip e req srv =
        ((reply 400 False)\<lparr>error := Some ''IP address required''\<rparr>, srv, []) \<and>
      admin_remove_ip e req srv =
        ((reply 400 False)\<lparr>error := Some ''IP address required''\<rparr>, srv, [])) \<and>
   (x_admin_key req = expectedAdminKey e \<and>
    (property (body req) ''mode'' = JStr (js ''whitelist'') \<or>
     property (body req) ''mode'' = JStr (js ''blacklist'')) \<longrightarrow>
      admin_set_mode e req srv =
        ((reply 200 True)
           \<lparr>message := Some [Lit ''IP filtering mode set to '', Sub (property (body req) ''mode'')],
            status := Some (getStatus (setMode (property (body req) ''mode'') (ipManager srv)))\<rparr>,
         srv\<lparr>ipManager := setMode (property (body req) ''mode'') (ipManager srv)\<rparr>, [])) \<and>
   (x_admin_key req = expectedAdminKey e \<and>
    property (body req) ''mode'' \<noteq> JStr (js ''whitelist'') \<and>
    property (body req) ''mode'' \<noteq> JStr (js ''blacklist'') \<longrightarrow>
      admin_set_mode e req srv =
        ((reply 400 False)\<lparr>error := Some invalid_mode_text\<rparr>, srv, []))"
proof -
  have key: "expectedAdminKey e =
      (if truthy (ADMIN_KEY e) then ADMIN_KEY e else JStr (js default_key))"
    by (simp add: expectedAdminKey_def js_or_def)
  have refused: "admin_ip_status e req srv =
        ((reply 401 False)\<lparr>error := Some ''Invalid admin key''\<rparr>, srv, []) \<and>
      admin_block_ip e req srv =
        ((reply 401 False)\<lparr>error := Some ''Invalid admin key''\<rparr>, srv, []) \<and>
      admin_allow_ip e req srv =
        ((reply 401 False)\<lparr>error := Some ''Invalid admin key''\<rparr>, srv, []) \<and>
      admin_remove_ip e req srv =
        ((reply 401 False)\<lparr>error := Some ''Invalid admin key''\<rparr>, srv, []) \<and>
      admin_set_mode e req srv =
        ((reply 401 False)\<lparr>error := Some ''Invalid admin key''\<rparr>, srv, [])"
    if "x_admin_key req \<noteq> expectedAdminKey e"
    using that
    by (simp add: admin_ip_status_def admin_block_ip_def admin_allow_ip_def
        admin_remove_ip_def admin_set_mode_def)
  have read: "admin_ip_status e req srv =
        ((reply 200 True)\<lparr>status := Some (getStatus (ipManager srv))\<rparr>, srv, [])"
    if "x_admin_key req = expectedAdminKey e"
    using that by (simp add: admin_ip_status_def)
  have change: "admin_block_ip e req srv =
        ((reply 200 True)
           \<lparr>message :=
              Some [Lit ''IP '', Sub (property (body req) ''ip''), Lit '' blocked successfully''],
            status := Some (getStatus (blockIP (property (body req) ''ip'') (ipManager srv)))\<rparr>,
         srv\<lparr>ipManager := blockIP (property (body req) ''ip'') (ipManager srv)\<rparr>, []) \<and>
      admin_allow_ip e req srv =
        ((reply 200 True)
           \<lparr>message :=
              Some [Lit ''IP '', Sub (property (body req) ''ip''), Lit '' allowed successfully''],
            status := Some (getStatus (allowIP (property (body req) ''ip'') (ipManager srv)))\<rparr>,
         srv\<lparr>ipManager := allowIP (property (body req) ''ip'') (ipManager srv)\<rparr>, []) \<and>
      admin_remove_ip e req srv =
        ((reply 200 True)
           \<lparr>message :=
              Some [Lit ''IP '', Sub (property (body req) ''ip''), Lit '' removed from all lists''],
            status := Some (getStatus (removeIP (property (body req) ''ip'') (ipManager srv)))\<rparr>,
         srv\<lparr>ipManager := removeIP (property (body req) ''ip'') (ipManager srv)\<rparr>, [])"
    if "x_admin_key req = expectedAdminKey e" "truthy (property (body req) ''ip'')"
      "\<not> to_string_throws (property (body req) ''ip'')"
    using that
    by (simp add: admin_block_ip_def admin_allow_ip_def admin_remove_ip_def Let_def)
  have missing: "admin_block_ip e req srv =
        ((reply 400 False)\<lparr>error := Some ''IP address required''\<rparr>, srv, []) \<and>
      admin_allow_ip e req srv =
        ((reply 400 False)\<lparr>error := Some ''IP address required''\<rparr>, srv, []) \<and>
      admin_remove_ip e req srv =
        ((reply 400 False)\<lparr>error := Some ''IP address required''\<rparr>, srv, [])"
    if "x_admin_key req = expectedAdminKey e" "\<not> truthy (property (body req) ''ip'')"
    using that
    by (simp add: admin_block_ip_def admin_allow_ip_def admin_remove_ip_def Let_def)
  have ne: "js ''whitelist'' \<noteq> []" "js ''blacklist'' \<noteq> []"
    by (simp_all add: js_def)
  have switch: "admin_set_mode e req srv =
        ((reply 200 True)
           \<lparr>message := Some [Lit ''IP filtering mode set to '', Sub (property (body req) ''mode'')],
            status := Some (getStatus (setMode (property (body req) ''mode'') (ipManager srv)))\<rparr>,
         srv\<lparr>ipManager := setMode (property (body req) ''mode'') (ipManager srv)\<rparr>, [])"
    if "x_admin_key req = expectedAdminKey e"
      "property (body req) ''mode'' = JStr (js ''whitelist'') \<or>
       property (body req) ''mode'' = JStr (js ''blacklist'')"
    using that ne by (auto simp add: admin_set_mode_def Let_def)
  have other: "admin_set_mode e req srv =
        ((reply 400 False)\<lparr>error := Some invalid_mode_text\<rparr>, srv, [])"
    if "x_admin_key req = expectedAdminKey e"
      "property (body req) ''mode'' \<noteq> JStr (js ''whitelist'')"
      "property (body req) ''mode'' \<noteq> JStr (js ''blacklist'')"
    using that by (simp add: admin_set_mode_def Let_def)
  from key refused read change missing switch other show ?thesis by blast
qed

theorem admin_routes_authorize_witness:
  "admin_block_ip unset_env
       (bare_request\<lparr>x_admin_key := JStr (js ''guess''),
          body := [(js ''ip'', JStr (js ''9.9.9.9''))]\<rparr>) initial_server =
     ((reply 401 False)\<lparr>error := Some ''Invalid admin key''\<rparr>, initial_server, []) \<and>
   admin_ip_status unset_env (bare_request\<lparr>x_admin_key := JStr (js default_key)\<rparr>)
       initial_server =
     ((reply 200 True)\<lparr>status := Some (getStatus (ipManager initial_server))\<rparr>,
      initial_server, []) \<and>
   admin_block_ip unset_env
       (bare_request\<lparr>x_admin_key := JStr (js default_key),
          body := [(js ''ip'', JStr (js ''9.9.9.9''))]\<rparr>) initial_server =
     ((reply 200 True)
        \<lparr>message := Some [Lit ''IP '', Sub (JStr (js ''9.9.9.9'')), Lit '' blocked successfully''],
         status := Some (getStatus (blockIP (JStr (js ''9.9.9.9'')) (ipManager initial_server)))\<rparr>,
      initial_server\<lparr>ipManager := blockIP (JStr (js ''9.9.9.9'')) (ipManager initial_server)\<rparr>,
      []) \<and>
   admin_remove_ip unset_env (bare_request\<lparr>x_admin_key := JStr (js default_key)\<rparr>)
       initial_server =
     ((reply 400 False)\<lparr>error := Some ''IP address required''\<rparr>, initial_server, []) \<and>
   admin_set_mode unset_env
       (bare_request\<lparr>x_admin_key := JStr (js default_key),
          body := [(js ''mode'', JStr (js ''whitelist''))]\<rparr>) initial_server =
     ((reply 200 True)
        \<lparr>message := Some [Lit ''IP filtering mode set to '', Sub (JStr (js ''whitelist''))],
         status :=
           Some (getStatus (setMode (JStr (js ''whitelist'')) (ipManager initial_server)))\<rparr>,
      initial_server\<lparr>ipManager := setMode (JStr (js ''whitelist'')) (ipManager initial_server)\<rparr>,
      []) \<and>
   admin_set_mode unset_env
       (bare_request\<lparr>x_admin_key := JStr (js default_key),
          body := [(js ''mode'', JStr (js ''greylist''))]\<rparr>) initial_server =
     ((reply 400 False)\<lparr>error := Some invalid_mode_text\<rparr>, initial_server, [])"
proof -
  let ?guess = "bare_request\<lparr>x_admin_key := JStr (js ''guess''),
          body := [(js ''ip'', JStr (js ''9.9.9.9''))]\<rparr>"
  let ?plain = "bare_request\<lparr>x_admin_key := JStr (js default_key)\<rparr>"
  let ?block = "bare_request\<lparr>x_admin_key := JStr (js default_key),
          body := [(js ''ip'', JStr (js ''9.9.9.9''))]\<rparr>"
  let ?white = "bare_request\<lparr>x_admin_key := JStr (js default_key),
          body := [(js ''mode'', JStr (js ''whitelist''))]\<rparr>"
  let ?grey = "bare_request\<lparr>x_admin_key := JStr (js default_key),
          body := [(js ''mode'', JStr (js ''greylist''))]\<rparr>"
  have expected: "expectedAdminKey unset_env = JStr (js default_key)"
    by (simp add: expectedAdminKey_def unset_env_def js_or_def)
  have wrong: "x_admin_key ?guess \<noteq> expectedAdminKey unset_env"
    by (simp add: expected js_def default_key_def)
  have ip: "property (body ?block) ''ip'' = JStr (js ''9.9.9.9'')"
    by (simp add: property_def)
  have ip_truthy: "truthy (JStr (js ''9.9.9.9''))"
    by (simp add: js_def)
  have ip_converts: "\<not> to_string_throws (JStr (js ''9.9.9.9''))"
    by simp
  have no_ip: "\<not> truthy (property (body ?plain) ''ip'')"
    by (simp add: property_def bare_request_def)
  have white: "property (body ?white) ''mode'' = JStr (js ''whitelist'')"
    by (simp add: property_def)
  have grey: "property (body ?grey) ''mode'' = JStr (js ''greylist'')"
    by (simp add: property_def)
  have grey_ne: "JStr (js ''greylist'') \<noteq> JStr (js ''whitelist'')"
    "JStr (js ''greylist'') \<noteq> JStr (js ''blacklist'')"
    by (simp_all add: js_def)
  from admin_routes_authorize [of unset_env ?guess initial_server] wrong
  have w1: "admin_block_ip unset_env ?guess initial_server =
      ((reply 401 False)\<lparr>error := Some ''Invalid admin key''\<rparr>, initial_server, [])"
    by blast
  from admin_routes_authorize [of unset_env ?plain initial_server] expected
  have w2: "admin_ip_status unset_env ?plain initial_server =
      ((reply 200 True)\<lparr>status := Some (getStatus (ipManager initial_server))\<rparr>,
       initial_server, [])"
    by simp
  from admin_routes_authorize [of unset_env ?block initial_server] expected ip ip_truthy
    ip_converts
  have w3: "admin_block_ip unset_env ?block initial_server =
      ((reply 200 True)
         \<lparr>message := Some [Lit ''IP '', Sub (JStr (js ''9.9.9.9'')), Lit '' blocked successfully''],
          status := Some (getStatus (blockIP (JStr (js ''9.9.9.9'')) (ipManager initial_server)))\<rparr>,
       initial_server\<lparr>ipManager := blockIP (JStr (js ''9.9.9.9'')) (ipManager initial_server)\<rparr>,
       [])"
    by simp
  from admin_routes_authorize [of unset_env ?plain initial_server] expected no_ip
  have w4: "admin_remove_ip unset_env ?plain initial_server =
      ((reply 400 False)\<lparr>error := Some ''IP address required''\<rparr>, initial_server, [])"
    by simp
  from admin_routes_authorize [of unset_env ?white initial_server] expected white
  have w5: "admin_set_mode unset_env ?white initial_server =
      ((reply 200 True)
         \<lparr>message := Some [Lit ''IP filtering mode set to '', Sub (JStr (js ''whitelist''))],
          status :=
            Some (getStatus (setMode (JStr (js ''whitelist'')) (ipManager initial_server)))\<rparr>,
       initial_server\<lparr>ipManager := setMode (JStr (js ''whitelist'')) (ipManager initial_server)\<rparr>,
       [])"
    by simp
  from admin_routes_authorize [of unset_env ?grey initial_server] expected grey grey_ne
  have w6: "admin_set_mode unset_env ?grey initial_server =
      ((reply 400 False)\<lparr>error := Some invalid_mode_text\<rparr>, initial_server, [])"
    by simp
  from w1 w2 w3 w4 w5 w6 show ?thesis by blast
qed

text \<open>
  C6 as it is worded fails: with the right key the block route still answers 400, with no
  snapshot, when the body has no \<^verbatim>\<open>ip\<close>; and the status route returns the snapshot
  without a message.
\<close>

theorem admin_key_alone_not_enough:
  "x_admin_key (bare_request\<lparr>x_admin_key := JStr (js default_key)\<rparr>) =
     expectedAdminKey unset_env \<and>
   admin_block_ip unset_env (bare_request\<lparr>x_admin_key := JStr (js default_key)\<rparr>)
       initial_server =
     ((reply 400 False)\<lparr>error := Some ''IP address required''\<rparr>, initial_server, []) \<and>
   status (fst (admin_block_ip unset_env (bare_request\<lparr>x_admin_key := JStr (js default_key)\<rparr>)
       initial_server)) = None \<and>
   message (fst (admin_ip_status unset_env (bare_request\<lparr>x_admin_key := JStr (js default_key)\<rparr>)
       initial_server)) = None"
proof -
  let ?plain = "bare_request\<lparr>x_admin_key := JStr (js default_key)\<rparr>"
  have expected: "x_admin_key ?plain = expectedAdminKey unset_env"
    by (simp add: expectedAdminKey_def unset_env_def js_or_def)
  have no_ip: "\<not> truthy (property (body ?plain) ''ip'')"
    by (simp add: property_def bare_request_def)
  have blocked: "admin_block_ip unset_env ?plain initial_server =
      ((reply 400 False)\<lparr>error := Some ''IP address required''\<rparr>, initial_server, [])"
    using expected no_ip by (simp add: admin_block_ip_def Let_def)
  have "status (fst (admin_block_ip unset_env ?plain initial_server)) = None"
    by (simp add: blocked reply_def)
  moreover have "message (fst (admin_ip_status unset_env ?plain initial_server)) = None"
    using expected by (simp add: admin_ip_status_def reply_def)
  ultimately show ?thesis using expected blocked by blast
qed

text \<open>
  C7. Setting the mode is the route \<^verbatim>\<open>POST /api/admin/set-mode\<close>, which calls
  \<^verbatim>\<open>ipManager.setMode\<close> and is its only caller. For a request with the right key: the
  literal \<^verbatim>\<open>whitelist\<close> turns whitelist mode on and \<^verbatim>\<open>blacklist\<close> turns it off, nothing else
  of the state changes, and the snapshot shows the mode given; any other value, a missing one
  included, is answered 400 with the message naming the two literals and the state is
  unchanged. (The method itself makes no check: for any value other than \<^verbatim>\<open>whitelist\<close> it
  turns whitelist mode off.)
\<close>

theorem set_mode_two_literals:
  assumes "x_admin_key req = expectedAdminKey e"
  shows
    "(property (body req) ''mode'' = JStr (js ''whitelist'') \<longrightarrow>
        code (fst (admin_set_mode e req srv)) = 200 \<and>
        fst (snd (admin_set_mode e req srv)) =
          srv\<lparr>ipManager := (ipManager srv)\<lparr>whitelistMode := True\<rparr>\<rparr> \<and>
        map_option mode (status (fst (admin_set_mode e req srv))) = Some ''whitelist'') \<and>
     (property (body req) ''mode'' = JStr (js ''blacklist'') \<longrightarrow>
        code (fst (admin_set_mode e req srv)) = 200 \<and>
        fst (snd (admin_set_mode e req srv)) =
          srv\<lparr>ipManager := (ipManager srv)\<lparr>whitelistMode := False\<rparr>\<rparr> \<and>
        map_option mode (status (fst (admin_set_mode e req srv))) = Some ''blacklist'') \<and>
     (property (body req) ''mode'' \<noteq> JStr (js ''whitelist'') \<and>
      property (body req) ''mode'' \<noteq> JStr (js ''blacklist'') \<longrightarrow>
        admin_set_mode e req srv =
          ((reply 400 False)\<lparr>error := Some invalid_mode_text\<rparr>, srv, []))"
proof -
  have ne: "js ''whitelist'' \<noteq> []" "js ''blacklist'' \<noteq> []" "js ''blacklist'' \<noteq> js ''whitelist''"
    by (simp_all add: js_def)
  show ?thesis
    using assms ne
    by (simp add: admin_set_mode_def Let_def setMode_def getStatus_def reply_def)
qed

theorem set_mode_two_literals_witness:
  "x_admin_key (bare_request\<lparr>x_admin_key := JStr (js default_key),
       body := [(js ''mode'', JStr (js ''whitelist''))]\<rparr>) = expectedAdminKey unset_env \<and>
   whitelistMode (ipManager (fst (snd (admin_set_mode unset_env
       (bare_request\<lparr>x_admin_key := JStr (js default_key),
          body := [(js ''mode'', JStr (js ''whitelist''))]\<rparr>) initial_server)))) \<and>
   \<not> whitelistMode (ipManager (fst (snd (admin_set_mode unset_env
       (bare_request\<lparr>x_admin_key := JStr (js default_key),
          body := [(js ''mode'', JStr (js ''blacklist''))]\<rparr>)
       (initial_server\<lparr>ipManager := setMode (JStr (js ''whitelist'')) initial_ipManager\<rparr>))))) \<and>
   admin_set_mode unset_env
       (bare_request\<lparr>x_admin_key := JStr (js default_key),
          body := [(js ''mode'', JStr (js ''Whitelist''))]\<rparr>)
       (initial_server\<lparr>ipManager := setMode (JStr (js ''whitelist'')) initial_ipManager\<rparr>) =
     ((reply 400 False)\<lparr>error := Some invalid_mode_text\<rparr>,
      initial_server\<lparr>ipManager := setMode (JStr (js ''whitelist'')) initial_ipManager\<rparr>, [])"
proof -
  let ?white = "bare_request\<lparr>x_admin_key := JStr (js default_key),
          body := [(js ''mode'', JStr (js ''whitelist''))]\<rparr>"
  let ?black = "bare_request\<lparr>x_admin_key := JStr (js default_key),
          body := [(js ''mode'', JStr (js ''blacklist''))]\<rparr>"
  let ?other = "bare_request\<lparr>x_admin_key := JStr (js default_key),
          body := [(js ''mode'', JStr (js ''Whitelist''))]\<rparr>"
  let ?srv = "initial_server\<lparr>ipManager := setMode (JStr (js ''whitelist'')) initial_ipManager\<rparr>"
  have expected: "expectedAdminKey unset_env = JStr (js default_key)"
    by (simp add: expectedAdminKey_def unset_env_def js_or_def)
  have k1: "x_admin_key ?white = expectedAdminKey unset_env" by (simp add: expected)
  have k2: "x_admin_key ?black = expectedAdminKey unset_env" by (simp add: expected)
  have k3: "x_admin_key ?other = expectedAdminKey unset_env" by (simp add: expected)
  have white: "property (body ?white) ''mode'' = JStr (js ''whitelist'')"
    by (simp add: property_def)
  have black: "property (body ?black) ''mode'' = JStr (js ''blacklist'')"
    by (simp add: property_def)
  have other: "property (body ?other) ''mode'' = JStr (js ''Whitelist'')"
    by (simp add: property_def)
  have other_ne: "JStr (js ''Whitelist'') \<noteq> JStr (js ''whitelist'')"
    "JStr (js ''Whitelist'') \<noteq> JStr (js ''blacklist'')"
    by (simp_all add: js_def)
  from set_mode_two_literals [OF k1, of initial_server] white
  have w1: "whitelistMode (ipManager (fst (snd (admin_set_mode unset_env ?white initial_server))))"
    by simp
  from set_mode_two_literals [OF k2, of ?srv] black
  have w2: "\<not> whitelistMode (ipManager (fst (snd (admin_set_mode unset_env ?black ?srv))))"
    by simp
  from set_mode_two_literals [OF k3, of ?srv] other other_ne
  have w3: "admin_set_mode unset_env ?other ?srv =
      ((reply 400 False)\<lparr>error := Some invalid_mode_text\<rparr>, ?srv, [])"
    by simp
  from k1 w1 w2 w3 show ?thesis by blast
qed

text \<open>
  C8. The address of the client is the first truthy value (a header that is absent or
  empty is not) of: the \<^verbatim>\<open>x-forwarded-for\<close> header, the \<^verbatim>\<open>x-real-ip\<close> header, the
  peer address read from \<^verbatim>\<open>req.connection\<close>, from \<^verbatim>\<open>req.socket\<close> and from \<^verbatim>\<open>req.ip\<close>, and
  at last the string \<^verbatim>\<open>Unknown\<close>. When the three readings of the peer address agree, these
  are the four steps forwarded-for, real-IP, peer address, \<^verbatim>\<open>Unknown\<close>.
\<close>

theorem clientIP_order:
  "clientIP req =
     (if truthy (x_forwarded_for req) then x_forwarded_for req
      else if truthy (x_real_ip req) then x_real_ip req
      else if truthy (connection_remoteAddress req) then connection_remoteAddress req
      else if truthy (socket_remoteAddress req) then socket_remoteAddress req
      else if truthy (req_ip req) then req_ip req
      else JStr (js ''Unknown'')) \<and>
   (connection_remoteAddress req = peer \<and> socket_remoteAddress req = peer \<and>
    req_ip req = peer \<longrightarrow>
      clientIP req =
        (if truthy (x_forwarded_for req) then x_forwarded_for req
         else if truthy (x_real_ip req) then x_real_ip req
         else if truthy peer then peer
         else JStr (js ''Unknown'')))"
  by (simp add: clientIP_def js_or_def)

theorem clientIP_order_witness:
  "clientIP (bare_request
       \<lparr>x_forwarded_for := JStr (js ''1.1.1.1''), x_real_ip := JStr (js ''2.2.2.2''),
        connection_remoteAddress := JStr (js ''3.3.3.3''),
        socket_remoteAddress := JStr (js ''3.3.3.3''), req_ip := JStr (js ''3.3.3.3'')\<rparr>) =
     JStr (js ''1.1.1.1'') \<and>
   clientIP (bare_request
       \<lparr>x_real_ip := JStr (js ''2.2.2.2''),
        connection_remoteAddress := JStr (js ''3.3.3.3''),
        socket_remoteAddress := JStr (js ''3.3.3.3''), req_ip := JStr (js ''3.3.3.3'')\<rparr>) =
     JStr (js ''2.2.2.2'') \<and>
   clientIP (bare_request
       \<lparr>x_forwarded_for := JStr [],
        connection_remoteAddress := JStr (js ''3.3.3.3''),
        socket_remoteAddress := JStr (js ''3.3.3.3''), req_ip := JStr (js ''3.3.3.3'')\<rparr>) =
     JStr (js ''3.3.3.3'') \<and>
   clientIP bare_request = JStr (js ''Unknown'')"
proof -
  let ?r1 = "bare_request
       \<lparr>x_forwarded_for := JStr (js ''1.1.1.1''), x_real_ip := JStr (js ''2.2.2.2''),
        connection_remoteAddress := JStr (js ''3.3.3.3''),
        socket_remoteAddress := JStr (js ''3.3.3.3''), req_ip := JStr (js ''3.3.3.3'')\<rparr>"
  let ?r2 = "bare_request
       \<lparr>x_real_ip := JStr (js ''2.2.2.2''),
        connection_remoteAddress := JStr (js ''3.3.3.3''),
        socket_remoteAddress := JStr (js ''3.3.3.3''), req_ip := JStr (js ''3.3.3.3'')\<rparr>"
  let ?r3 = "bare_request
       \<lparr>x_forwarded_for := JStr [],
        connection_remoteAddress := JStr (js ''3.3.3.3''),
        socket_remoteAddress := JStr (js ''3.3.3.3''), req_ip := JStr (js ''3.3.3.3'')\<rparr>"
  have t: "truthy (JStr (js ''1.1.1.1''))" "truthy (JStr (js ''2.2.2.2''))"
    "truthy (JStr (js ''3.3.3.3''))"
    by (simp_all add: js_def)
  from clientIP_order [of ?r1 "JStr (js ''3.3.3.3'')"] t
  have w1: "clientIP ?r1 = JStr (js ''1.1.1.1'')" by simp
  from clientIP_order [of ?r2 "JStr (js ''3.3.3.3'')"] t
  have w2: "clientIP ?r2 = JStr (js ''2.2.2.2'')" by (simp add: bare_request_def)
  from clientIP_order [of ?r3 "JStr (js ''3.3.3.3'')"] t
  have w3: "clientIP ?r3 = JStr (js ''3.3.3.3'')" by (simp add: bare_request_def)
  from clientIP_order [of bare_request JUndefined]
  have w4: "clientIP bare_request = JStr (js ''Unknown'')" by (simp add: bare_request_def)
  from w1 w2 w3 w4 show ?thesis by blast
qed

end
